theory Spec2Isabelle
  imports Complex_Main "HOL-Library.Multiset"
begin

section \<open>JavaScript values\<close>

text \<open>
  A JavaScript number is a double: a finite value, one of the two infinities, or NaN. A
  finite value is kept as the rational it denotes, and every operation that produces a
  number rounds its exact result to the nearest double (\<open>roundDouble\<close> below). The sign of
  zero is not modelled.
\<close>

datatype jsnum = Fin rat | PosInf | NegInf | NaN

datatype jsval =
    JUndefined
  | JNull
  | JBool bool
  | JNum jsnum
  | JStr string
  | JArr "jsval list"
  | JObj "(string \<times> jsval) list"

text \<open>\<open>obj[key]\<close> on a plain object: \<open>undefined\<close> when the key is absent.\<close>

definition getProp :: "(string \<times> jsval) list \<Rightarrow> string \<Rightarrow> jsval" where
  "getProp fs k = (case map_of fs k of None \<Rightarrow> JUndefined | Some v \<Rightarrow> v)"

definition hasKey :: "(string \<times> jsval) list \<Rightarrow> string \<Rightarrow> bool" where
  "hasKey fs k = (map_of fs k \<noteq> None)"

text \<open>\<open>x >= 0\<close> and \<open>x > 0\<close> on numbers; every comparison with NaN is false.\<close>

fun js_ge0 :: "jsnum \<Rightarrow> bool" where
  "js_ge0 (Fin r) = (0 \<le> r)"
| "js_ge0 PosInf = True"
| "js_ge0 NegInf = False"
| "js_ge0 NaN = False"

fun js_gt0 :: "jsnum \<Rightarrow> bool" where
  "js_gt0 (Fin r) = (0 < r)"
| "js_gt0 PosInf = True"
| "js_gt0 NegInf = False"
| "js_gt0 NaN = False"

fun js_lt0 :: "jsnum \<Rightarrow> bool" where
  "js_lt0 (Fin r) = (r < 0)"
| "js_lt0 PosInf = False"
| "js_lt0 NegInf = True"
| "js_lt0 NaN = False"

fun isNaN :: "jsnum \<Rightarrow> bool" where
  "isNaN NaN = True"
| "isNaN _ = False"

fun isFinite :: "jsnum \<Rightarrow> bool" where
  "isFinite (Fin r) = True"
| "isFinite _ = False"

fun isInteger :: "jsnum \<Rightarrow> bool" where
  "isInteger (Fin r) = (of_int \<lfloor>r\<rfloor> = r)"
| "isInteger _ = False"

subsection \<open>Rounding to a double\<close>

text \<open>
  The doubles are the values \<open>n * 2 ^ e\<close> with \<open>n\<close> below \<open>2 ^ 53\<close> and \<open>e\<close> from -1074 to
  971. \<open>roundDouble\<close> takes a rational to the nearest of them, a tie to the one with an
  even \<open>n\<close>, and to an infinity from \<open>2 ^ 1024\<close> on: the spacing of the doubles around
  \<open>a\<close> is \<open>2 ^ e\<close> with \<open>e\<close> the binary exponent of \<open>a\<close> less 52, and never below -1074.
\<close>

fun bitLength :: "nat \<Rightarrow> nat" where
  "bitLength n = (if n = 0 then 0 else Suc (bitLength (n div 2)))"

declare bitLength.simps [simp del]

definition pow2 :: "int \<Rightarrow> rat" where
  "pow2 e = (if 0 \<le> e then 2 ^ nat e else 1 / 2 ^ nat (- e))"

text \<open>The binary exponent of a positive rational: the \<open>k\<close> with \<open>2 ^ k \<le> a < 2 ^ (k + 1)\<close>.\<close>

definition floorLog2 :: "rat \<Rightarrow> int" where
  "floorLog2 a = (if 1 \<le> a then int (bitLength (nat \<lfloor>a\<rfloor>)) - 1
                  else - int (bitLength (nat (\<lceil>1 / a\<rceil> - 1))))"

definition roundHalfEven :: "rat \<Rightarrow> int" where
  "roundHalfEven q =
    (let f = \<lfloor>q\<rfloor>; d = q - of_int f
     in if d < 1 / 2 then f else if 1 / 2 < d then f + 1 else if even f then f else f + 1)"

definition roundDouble :: "rat \<Rightarrow> jsnum" where
  "roundDouble r =
    (if r = 0 then Fin 0
     else
       let a = \<bar>r\<bar>;
           e = max (floorLog2 a) (- 1022) - 52;
           n = roundHalfEven (a / pow2 e)
       in if 971 < e \<or> (e = 971 \<and> 9007199254740992 \<le> n)
          then (if r < 0 then NegInf else PosInf)
          else Fin (if r < 0 then - (of_int n * pow2 e) else of_int n * pow2 e))"

subsection \<open>Arithmetic on numbers\<close>

text \<open>
  \<open>a + b\<close> and \<open>a - b\<close> on numbers: the exact sum of two finite values, rounded; NaN once
  an operand is NaN or opposite infinities meet. \<open>x || 0\<close> replaces the falsy numbers, 0
  and NaN, by 0.
\<close>

fun js_add :: "jsnum \<Rightarrow> jsnum \<Rightarrow> jsnum" where
  "js_add (Fin a) (Fin b) = roundDouble (a + b)"
| "js_add NaN y = NaN"
| "js_add x NaN = NaN"
| "js_add PosInf NegInf = NaN"
| "js_add NegInf PosInf = NaN"
| "js_add PosInf y = PosInf"
| "js_add NegInf y = NegInf"
| "js_add x PosInf = PosInf"
| "js_add x NegInf = NegInf"

fun js_neg :: "jsnum \<Rightarrow> jsnum" where
  "js_neg (Fin a) = Fin (- a)"
| "js_neg PosInf = NegInf"
| "js_neg NegInf = PosInf"
| "js_neg NaN = NaN"

definition js_sub :: "jsnum \<Rightarrow> jsnum \<Rightarrow> jsnum" where
  "js_sub a b = js_add a (js_neg b)"

definition or0 :: "jsnum \<Rightarrow> jsnum" where
  "or0 x = (if x = Fin 0 \<or> x = NaN then Fin 0 else x)"

fun finVal :: "jsnum \<Rightarrow> rat" where
  "finVal (Fin r) = r"
| "finVal _ = 0"

subsection \<open>Strings to numbers\<close>

text \<open>
  A string is a list of code units below 256. \<open>parseFloat\<close> skips leading white space and
  reads the longest prefix that is a decimal literal: an optional sign, then \<open>Infinity\<close>,
  or digits with an optional fraction and an optional exponent; with no such prefix the
  result is NaN. \<open>Number(s)\<close> on a string trims it at both ends and wants the whole of it
  to be a literal: empty is 0, a decimal literal is its value, and so is an unsigned
  literal in base 16, 8 or 2; anything else is NaN. The value of a literal is rounded to
  a double.
\<close>

definition isWhiteSpace :: "char \<Rightarrow> bool" where
  "isWhiteSpace c = (c \<in> set [CHR 0x09, CHR 0x0A, CHR 0x0B, CHR 0x0C, CHR 0x0D, CHR 0x20, CHR 0xA0])"

definition trim :: "string \<Rightarrow> string" where
  "trim s = rev (dropWhile isWhiteSpace (rev (dropWhile isWhiteSpace s)))"

text \<open>The value of a digit is its position among the digits of the base.\<close>

definition digitIn :: "string \<Rightarrow> char \<Rightarrow> nat" where
  "digitIn ds c = length (takeWhile (\<lambda>d. d \<noteq> c) ds)"

definition isDigit :: "char \<Rightarrow> bool" where
  "isDigit c = (c \<in> set ''0123456789'')"

definition digitVal :: "char \<Rightarrow> nat" where
  "digitVal c = digitIn ''0123456789'' c"

definition digitsVal :: "string \<Rightarrow> nat" where
  "digitsVal ds = foldl (\<lambda>a c. 10 * a + digitVal c) 0 ds"

definition startsWith :: "string \<Rightarrow> string \<Rightarrow> bool" where
  "startsWith s p = (take (length p) s = p)"

text \<open>An optional sign: whether it is a minus, and the rest of the string.\<close>

fun readSign :: "string \<Rightarrow> bool \<times> string" where
  "readSign [] = (False, [])"
| "readSign (c # cs) =
    (if c = CHR ''-'' then (True, cs) else if c = CHR ''+'' then (False, cs) else (False, c # cs))"

text \<open>
  The exponent part and what follows it; without a digit after the \<open>e\<close> there is no
  exponent part and nothing is consumed.
\<close>

fun readExponent :: "string \<Rightarrow> int \<times> string" where
  "readExponent [] = (0, [])"
| "readExponent (c # cs) =
    (if c = CHR ''e'' \<or> c = CHR ''E'' then
       (let (neg, r) = readSign cs; ds = takeWhile isDigit r
        in if ds = [] then (0, c # cs)
           else (if neg then - int (digitsVal ds) else int (digitsVal ds), dropWhile isDigit r))
     else (0, c # cs))"

definition pow10 :: "int \<Rightarrow> rat" where
  "pow10 e = (if 0 \<le> e then 10 ^ nat e else 1 / 10 ^ nat (- e))"

text \<open>The longest decimal literal at the head of a string: its value and the rest.\<close>

definition readDecimal :: "string \<Rightarrow> (jsnum \<times> string) option" where
  "readDecimal s =
    (let (neg, r) = readSign s in
     if startsWith r ''Infinity'' then Some (if neg then NegInf else PosInf, drop 8 r)
     else
       let ip = takeWhile isDigit r;
           r1 = dropWhile isDigit r;
           (fp, r2) = (case r1 of
                         [] \<Rightarrow> ([], [])
                       | c # cs \<Rightarrow> if c = CHR ''.'' then (takeWhile isDigit cs, dropWhile isDigit cs)
                                   else ([], r1))
       in if ip = [] \<and> fp = [] then None
          else
            let (ex, r3) = readExponent r2;
                m = of_nat (digitsVal ip) + of_nat (digitsVal fp) / 10 ^ length fp;
                v = m * pow10 ex
            in Some (roundDouble (if neg then - v else v), r3))"

definition parseFloat :: "string \<Rightarrow> jsnum" where
  "parseFloat s =
    (case readDecimal (dropWhile isWhiteSpace s) of None \<Rightarrow> NaN | Some (v, rest) \<Rightarrow> v)"

definition radixValue :: "string \<Rightarrow> string \<Rightarrow> nat option" where
  "radixValue digits ds =
    (if ds \<noteq> [] \<and> list_all (\<lambda>c. c \<in> set digits) ds
     then Some (foldl (\<lambda>a c. length digits * a + digitIn digits c) 0 ds)
     else None)"

text \<open>\<open>0x\<close>, \<open>0o\<close> and \<open>0b\<close> literals; the letters count in either case.\<close>

definition lowerHex :: "char \<Rightarrow> char" where
  "lowerHex c =
    (case List.find (\<lambda>(u, l). u = c) (zip ''ABCDEFXOB'' ''abcdefxob'') of
       Some (u, l) \<Rightarrow> l
     | None \<Rightarrow> c)"

definition nonDecimalLiteral :: "string \<Rightarrow> nat option" where
  "nonDecimalLiteral s =
    (case map lowerHex s of
       c0 # c1 # ds \<Rightarrow>
         if c0 \<noteq> CHR ''0'' then None
         else if c1 = CHR ''x'' then radixValue ''0123456789abcdef'' ds
         else if c1 = CHR ''o'' then radixValue ''01234567'' ds
         else if c1 = CHR ''b'' then radixValue ''01'' ds
         else None
     | _ \<Rightarrow> None)"

definition stringToNumber :: "string \<Rightarrow> jsnum" where
  "stringToNumber s =
    (let t = trim s in
     if t = [] then Fin 0
     else
       (case nonDecimalLiteral t of
          Some n \<Rightarrow> roundDouble (of_nat n)
        | None \<Rightarrow>
            (case readDecimal t of
               None \<Rightarrow> NaN
             | Some (v, rest) \<Rightarrow> if rest = [] then v else NaN)))"

subsection \<open>Numbers to strings\<close>

text \<open>
  \<open>String(x)\<close> on a number, as \<open>+\<close> applies it when the other operand is a string: a whole
  number up to \<open>2 ^ 53\<close> is written with its decimal digits. The digits of any other
  finite value (the shortest that read back as the same double) are left to a parameter.
\<close>

fun showNat :: "nat \<Rightarrow> string" where
  "showNat n = (if n < 10 then [''0123456789'' ! n] else showNat (n div 10) @ [''0123456789'' ! (n mod 10)])"

declare showNat.simps [simp del]

definition numberToString :: "(rat \<Rightarrow> string) \<Rightarrow> jsnum \<Rightarrow> string" where
  "numberToString otherDigits x =
    (case x of
       NaN \<Rightarrow> ''NaN''
     | PosInf \<Rightarrow> ''Infinity''
     | NegInf \<Rightarrow> ''-Infinity''
     | Fin r \<Rightarrow>
         if of_int \<lfloor>r\<rfloor> = r \<and> \<bar>r\<bar> \<le> 9007199254740992
         then (if r < 0 then ''-'' @ showNat (nat (- \<lfloor>r\<rfloor>)) else showNat (nat \<lfloor>r\<rfloor>))
         else otherDigits r)"

section \<open>The schema library\<close>

text \<open>
  The validator of \<open>event.schema.ts\<close> is built from the combinators of the zod library.
  A schema takes the path of the value inside the payload and the value. Its result is
  valid, with the parsed value; or dirty, when the value has the schema's type and fails
  a check or a refinement; or invalid, when it has not the type. The last two carry the
  issues found, and only a valid result makes \<open>safeParse\<close> succeed.

  What belongs to the library alone is a parameter: the test behind \<open>.email()\<close>, whether
  \<open>z.number()\<close> lets an infinity through, and the text of the messages the source does
  not supply. \<open>zod3_message\<close> gives the texts of the library's version 3.
\<close>

datatype jstype = TUndefined | TNull | TBoolean | TNumber | TNan | TString | TArray | TObject

fun parsedType :: "jsval \<Rightarrow> jstype" where
  "parsedType JUndefined = TUndefined"
| "parsedType JNull = TNull"
| "parsedType (JBool b) = TBoolean"
| "parsedType (JNum n) = (if isNaN n then TNan else TNumber)"
| "parsedType (JStr s) = TString"
| "parsedType (JArr xs) = TArray"
| "parsedType (JObj fs) = TObject"

text \<open>
  The issues of the library that the schemas of the source can raise. Both minimum checks
  of the source have the minimum 0: \<open>too_small True\<close> is the inclusive one
  (\<open>.nonnegative()\<close>), \<open>too_small False\<close> the exclusive one (\<open>.positive()\<close>).
\<close>

datatype issue_code =
    invalid_type jstype jstype
  | too_small bool
  | not_integer
  | not_finite
  | invalid_email
  | invalid_union

record issue =
  path :: "string list"
  message :: string

record zod =
  isEmail :: "string \<Rightarrow> bool"
  acceptsInfinity :: bool
  defaultMessage :: "issue_code \<Rightarrow> string"

fun typeName :: "jstype \<Rightarrow> string" where
  "typeName TUndefined = ''undefined''"
| "typeName TNull = ''null''"
| "typeName TBoolean = ''boolean''"
| "typeName TNumber = ''number''"
| "typeName TNan = ''nan''"
| "typeName TString = ''string''"
| "typeName TArray = ''array''"
| "typeName TObject = ''object''"

fun zod3_message :: "issue_code \<Rightarrow> string" where
  "zod3_message (invalid_type expected received) =
    (if received = TUndefined then ''Required''
     else ''Expected '' @ typeName expected @ '', received '' @ typeName received)"
| "zod3_message (too_small inclusive) =
    (if inclusive then ''Number must be greater than or equal to 0''
     else ''Number must be greater than 0'')"
| "zod3_message not_integer = ''Expected integer, received float''"
| "zod3_message not_finite = ''Number must be finite''"
| "zod3_message invalid_email = ''Invalid email''"
| "zod3_message invalid_union = ''Invalid input''"

datatype parsed = Valid jsval | Dirty "issue list" | Invalid "issue list"

type_synonym schema = "string list \<Rightarrow> jsval \<Rightarrow> parsed"

definition mkIssue :: "string list \<Rightarrow> string \<Rightarrow> issue" where
  "mkIssue p m = \<lparr>path = p, message = m\<rparr>"

text \<open>
  \<open>z.number()\<close> with its checks: a value that is not a number (NaN is not one) is invalid;
  otherwise every check runs, each failure is an issue, and any issue makes the result
  dirty.
\<close>

definition z_number :: "zod \<Rightarrow> (jsnum \<Rightarrow> issue_code option) list \<Rightarrow> schema" where
  "z_number L checks p v =
    (case v of
       JNum n \<Rightarrow>
         if isNaN n then Invalid [mkIssue p (defaultMessage L (invalid_type TNumber TNan))]
         else if \<not> acceptsInfinity L \<and> \<not> isFinite n
           then Invalid [mkIssue p (defaultMessage L not_finite)]
         else
           (let found = concat (map (\<lambda>c. case c n of None \<Rightarrow> []
                                           | Some code \<Rightarrow> [mkIssue p (defaultMessage L code)]) checks)
            in if found = [] then Valid v else Dirty found)
     | _ \<Rightarrow> Invalid [mkIssue p (defaultMessage L (invalid_type TNumber (parsedType v)))])"

definition nonnegative :: "jsnum \<Rightarrow> issue_code option" where
  "nonnegative n = (if js_ge0 n then None else Some (too_small True))"

definition positive :: "jsnum \<Rightarrow> issue_code option" where
  "positive n = (if js_gt0 n then None else Some (too_small False))"

definition int_check :: "jsnum \<Rightarrow> issue_code option" where
  "int_check n = (if isInteger n then None else Some not_integer)"

text \<open>\<open>z.string()\<close> with its checks; a check answers with the message of its issue.\<close>

definition z_string :: "zod \<Rightarrow> (string \<Rightarrow> string option) list \<Rightarrow> schema" where
  "z_string L checks p v =
    (case v of
       JStr s \<Rightarrow>
         (let found = concat (map (\<lambda>c. case c s of None \<Rightarrow> [] | Some m \<Rightarrow> [mkIssue p m]) checks)
          in if found = [] then Valid v else Dirty found)
     | _ \<Rightarrow> Invalid [mkIssue p (defaultMessage L (invalid_type TString (parsedType v)))])"

definition min_length :: "nat \<Rightarrow> string \<Rightarrow> string \<Rightarrow> string option" where
  "min_length n m s = (if length s < n then Some m else None)"

definition email :: "zod \<Rightarrow> string \<Rightarrow> string option" where
  "email L s = (if isEmail L s then None else Some (defaultMessage L invalid_email))"

text \<open>
  \<open>.refine(pred, msg)\<close> on a string schema: the predicate runs unless the inner result is
  invalid, and its failure is one more issue, which makes the result dirty.
\<close>

definition z_string_refine :: "zod \<Rightarrow> (string \<Rightarrow> bool) \<Rightarrow> string \<Rightarrow> schema" where
  "z_string_refine L pred m p v =
    (let failed = (case v of JStr s \<Rightarrow> if pred s then [] else [mkIssue p m] | _ \<Rightarrow> [])
     in case z_string L [] p v of
          Invalid found \<Rightarrow> Invalid found
        | Dirty found \<Rightarrow> Dirty (found @ failed)
        | Valid w \<Rightarrow> if failed = [] then Valid w else Dirty failed)"

definition z_optional :: "schema \<Rightarrow> schema" where
  "z_optional s p v = (if v = JUndefined then Valid JUndefined else s p v)"

definition z_nullable :: "schema \<Rightarrow> schema" where
  "z_nullable s p v = (if v = JNull then Valid JNull else s p v)"

text \<open>
  \<open>z.union\<close>: the first option that finds the value valid gives the result. When none
  does, the first option with a dirty result gives it, with that option's own issues;
  when every option is invalid the union reports one issue of its own.
\<close>

fun firstValid :: "schema list \<Rightarrow> string list \<Rightarrow> jsval \<Rightarrow> jsval option" where
  "firstValid [] p v = None"
| "firstValid (s # ss) p v = (case s p v of Valid w \<Rightarrow> Some w | _ \<Rightarrow> firstValid ss p v)"

fun firstDirty :: "schema list \<Rightarrow> string list \<Rightarrow> jsval \<Rightarrow> issue list option" where
  "firstDirty [] p v = None"
| "firstDirty (s # ss) p v = (case s p v of Dirty found \<Rightarrow> Some found | _ \<Rightarrow> firstDirty ss p v)"

definition z_union :: "zod \<Rightarrow> schema list \<Rightarrow> schema" where
  "z_union L opts p v =
    (case firstValid opts p v of
       Some w \<Rightarrow> Valid w
     | None \<Rightarrow>
         (case firstDirty opts p v of
            Some found \<Rightarrow> Dirty found
          | None \<Rightarrow> Invalid [mkIssue p (defaultMessage L invalid_union)]))"

text \<open>
  \<open>z.object(shape)\<close>: every key of the shape is parsed, in the shape's order, at the path
  extended by the key; an absent key reads as \<open>undefined\<close>. All issues are collected. The
  object is invalid when a key is, dirty when a key is dirty and none invalid, and valid
  otherwise. The result keeps a key of the shape when its value is defined or the input
  has the key; keys outside the shape are dropped, or kept after the shape's keys under
  \<open>.passthrough()\<close>.
\<close>

datatype parse_status = valid | dirty | aborted

fun worse :: "parse_status \<Rightarrow> parse_status \<Rightarrow> parse_status" where
  "worse aborted t = aborted"
| "worse t aborted = aborted"
| "worse dirty t = dirty"
| "worse t dirty = dirty"
| "worse valid valid = valid"

fun parseShape :: "(string \<times> schema) list \<Rightarrow> string list \<Rightarrow> (string \<times> jsval) list
    \<Rightarrow> parse_status \<times> issue list \<times> (string \<times> jsval) list" where
  "parseShape [] p fs = (valid, [], [])"
| "parseShape ((k, s) # sh) p fs =
    (let (st, found, out) = parseShape sh p fs
     in case s (p @ [k]) (getProp fs k) of
          Invalid e \<Rightarrow> (aborted, e @ found, out)
        | Dirty e \<Rightarrow> (worse dirty st, e @ found, out)
        | Valid w \<Rightarrow> (st, found, if w \<noteq> JUndefined \<or> hasKey fs k then (k, w) # out else out))"

definition z_object :: "zod \<Rightarrow> (string \<times> schema) list \<Rightarrow> bool \<Rightarrow> schema" where
  "z_object L shape passthrough p v =
    (case v of
       JObj fs \<Rightarrow>
         (let (st, found, out) = parseShape shape p fs
          in case st of
               aborted \<Rightarrow> Invalid found
             | dirty \<Rightarrow> Dirty found
             | valid \<Rightarrow>
                 Valid (JObj (out @ (if passthrough
                                      then filter (\<lambda>(k, w). k \<notin> set (map fst shape)) fs
                                      else []))))
     | _ \<Rightarrow> Invalid [mkIssue p (defaultMessage L (invalid_type TObject (parsedType v)))])"

section \<open>Event payload validation (event.schema.ts)\<close>

definition monetaryValueSchema :: "zod \<Rightarrow> schema" where
  "monetaryValueSchema L =
    z_union L
      [z_number L [nonnegative],
       z_object L [] True,
       z_string_refine L (\<lambda>val. \<not> isNaN (parseFloat val)) ''Must be a valid number string'']"

definition AssetEventDataSchema :: "zod \<Rightarrow> schema" where
  "AssetEventDataSchema L =
    z_object L
      [(''name'', z_string L [min_length 1 ''Asset name is required'']),
       (''value'', monetaryValueSchema L)] False"

definition LiabilityEventDataSchema :: "zod \<Rightarrow> schema" where
  "LiabilityEventDataSchema L =
    z_object L
      [(''name'', z_string L [min_length 1 ''Liability name is required'']),
       (''value'', monetaryValueSchema L)] False"

definition ExpenseEventDataSchema :: "zod \<Rightarrow> schema" where
  "ExpenseEventDataSchema L =
    z_object L
      [(''name'', z_string L [min_length 1 ''Expense name is required'']),
       (''amount'', monetaryValueSchema L)] False"

definition IncomeEventDataSchema :: "zod \<Rightarrow> schema" where
  "IncomeEventDataSchema L =
    z_object L
      [(''name'', z_string L [min_length 1 ''Income name is required'']),
       (''amount'', monetaryValueSchema L),
       (''type'', z_string L [min_length 1 ''Income type is required'']),
       (''quadrant'', z_nullable (z_optional (z_string L [])))] False"

definition CashSavingsEventDataSchema :: "zod \<Rightarrow> schema" where
  "CashSavingsEventDataSchema L = z_object L [(''amount'', monetaryValueSchema L)] False"

definition UserEventDataSchema :: "zod \<Rightarrow> schema" where
  "UserEventDataSchema L =
    z_object L
      [(''preferredCurrencyId'', z_optional (z_number L [int_check, positive])),
       (''name'', z_optional (z_string L [])),
       (''email'', z_optional (z_string L [email L]))] True"

datatype EntityType = ASSET | LIABILITY | EXPENSE | INCOME | CASH_SAVINGS | USER

fun entityTypeName :: "EntityType \<Rightarrow> string" where
  "entityTypeName ASSET = ''ASSET''"
| "entityTypeName LIABILITY = ''LIABILITY''"
| "entityTypeName EXPENSE = ''EXPENSE''"
| "entityTypeName INCOME = ''INCOME''"
| "entityTypeName CASH_SAVINGS = ''CASH_SAVINGS''"
| "entityTypeName USER = ''USER''"

fun eventDataSchemaMap :: "zod \<Rightarrow> EntityType \<Rightarrow> schema option" where
  "eventDataSchemaMap L ASSET = Some (AssetEventDataSchema L)"
| "eventDataSchemaMap L LIABILITY = Some (LiabilityEventDataSchema L)"
| "eventDataSchemaMap L EXPENSE = Some (ExpenseEventDataSchema L)"
| "eventDataSchemaMap L INCOME = Some (IncomeEventDataSchema L)"
| "eventDataSchemaMap L CASH_SAVINGS = Some (CashSavingsEventDataSchema L)"
| "eventDataSchemaMap L USER = Some (UserEventDataSchema L)"

text \<open>\<open>xs.join(sep)\<close> on a list of strings.\<close>

fun joinStr :: "string \<Rightarrow> string list \<Rightarrow> string" where
  "joinStr sep [] = []"
| "joinStr sep [x] = x"
| "joinStr sep (x # y # ys) = x @ sep @ joinStr sep (y # ys)"

text \<open>
  What a \<open>throw\<close> carries: \<open>new Error(message)\<close>, or any other value. The \<open>catch\<close> of
  \<open>safeValidateEventPayload\<close> tells the two apart.
\<close>

datatype thrown = ErrorObj string | NonError jsval

text \<open>The issues of a result that is not valid.\<close>

fun issuesOf :: "parsed \<Rightarrow> issue list" where
  "issuesOf (Valid w) = []"
| "issuesOf (Dirty found) = found"
| "issuesOf (Invalid found) = found"

definition validateEventPayload :: "zod \<Rightarrow> EntityType \<Rightarrow> jsval \<Rightarrow> thrown + jsval" where
  "validateEventPayload L entityType payload =
    (case eventDataSchemaMap L entityType of
       None \<Rightarrow>
         Inl (ErrorObj (''No validation schema found for entity type: '' @ entityTypeName entityType))
     | Some schema \<Rightarrow>
         (case schema [] payload of
            Valid data \<Rightarrow> Inr data
          | result \<Rightarrow>
              (let errorMessages =
                     joinStr ''; '' (map (\<lambda>err. joinStr ''.'' (path err) @ '': '' @ message err)
                                      (issuesOf result))
               in Inl (ErrorObj (''Invalid '' @ entityTypeName entityType @ '' event payload: ''
                                  @ errorMessages)))))"

datatype validation_outcome = ValidationResult jsval | ValidationError string

definition safeValidateEventPayload :: "zod \<Rightarrow> EntityType \<Rightarrow> jsval \<Rightarrow> validation_outcome" where
  "safeValidateEventPayload L entityType payload =
    (case validateEventPayload L entityType payload of
       Inr data \<Rightarrow> ValidationResult data
     | Inl error \<Rightarrow>
         ValidationError (case error of ErrorObj m \<Rightarrow> m
                                      | NonError x \<Rightarrow> ''Unknown validation error''))"

text \<open>The key of the monetary field of each entity type; USER has none.\<close>

fun monetaryField :: "EntityType \<Rightarrow> string option" where
  "monetaryField ASSET = Some ''value''"
| "monetaryField LIABILITY = Some ''value''"
| "monetaryField EXPENSE = Some ''amount''"
| "monetaryField INCOME = Some ''amount''"
| "monetaryField CASH_SAVINGS = Some ''amount''"
| "monetaryField USER = None"

text \<open>
  What the schemas ask of the fields other than the monetary one: a non-empty string
  \<open>name\<close> (and \<open>type\<close> for INCOME, whose \<open>quadrant\<close> is a string, null or absent).
\<close>

definition nonEmptyString :: "jsval \<Rightarrow> bool" where
  "nonEmptyString v = (case v of JStr s \<Rightarrow> s \<noteq> [] | _ \<Rightarrow> False)"

definition optionalNullableString :: "jsval \<Rightarrow> bool" where
  "optionalNullableString v = (case v of JStr s \<Rightarrow> True | JNull \<Rightarrow> True | JUndefined \<Rightarrow> True | _ \<Rightarrow> False)"

fun otherFieldsValid :: "EntityType \<Rightarrow> (string \<times> jsval) list \<Rightarrow> bool" where
  "otherFieldsValid ASSET fs = nonEmptyString (getProp fs ''name'')"
| "otherFieldsValid LIABILITY fs = nonEmptyString (getProp fs ''name'')"
| "otherFieldsValid EXPENSE fs = nonEmptyString (getProp fs ''name'')"
| "otherFieldsValid INCOME fs =
    (nonEmptyString (getProp fs ''name'') \<and> nonEmptyString (getProp fs ''type'')
     \<and> optionalNullableString (getProp fs ''quadrant''))"
| "otherFieldsValid CASH_SAVINGS fs = True"
| "otherFieldsValid USER fs = False"

text \<open>
  A library instance on which concrete payloads are evaluated: the messages and the
  numbers of version 3, and a test for an at sign in the place of the library's pattern
  for an email address.
\<close>

definition zod_sample :: zod where
  "zod_sample = \<lparr>isEmail = (\<lambda>s. CHR ''@'' \<in> set s), acceptsInfinity = True,
                  defaultMessage = zod3_message\<rparr>"

section \<open>Column types under the migrations\<close>

text \<open>
  The two migrations under \<open>prisma/migrations\<close>, as data definition statements run on a
  schema: the tables with the declared type of each column. Constraints, defaults and
  indexes carry no type and are left out.
\<close>

datatype sql_type =
    SERIAL | TEXT | BOOLEAN | INTEGER | TIMESTAMP nat | JSONB
  | DOUBLE_PRECISION
  | DECIMAL nat nat

type_synonym db_schema = "(string \<times> (string \<times> sql_type) list) list"

datatype ddl =
    CreateTable string "(string \<times> sql_type) list"
  | AlterColumnType string string sql_type

datatype sql_error = DuplicateTable string | UndefinedTable string | UndefinedColumn string string

definition columnType :: "db_schema \<Rightarrow> string \<Rightarrow> string \<Rightarrow> sql_type option" where
  "columnType S t c = (case map_of S t of None \<Rightarrow> None | Some cols \<Rightarrow> map_of cols c)"

fun run_ddl :: "db_schema \<Rightarrow> ddl \<Rightarrow> sql_error + db_schema" where
  "run_ddl S (CreateTable t cols) =
    (if map_of S t \<noteq> None then Inl (DuplicateTable t) else Inr (S @ [(t, cols)]))"
| "run_ddl S (AlterColumnType t c ty) =
    (case map_of S t of
       None \<Rightarrow> Inl (UndefinedTable t)
     | Some cols \<Rightarrow>
         if map_of cols c = None then Inl (UndefinedColumn t c)
         else Inr (map (\<lambda>(t', cols').
                     if t' = t then (t', map (\<lambda>(c', ty'). if c' = c then (c', ty) else (c', ty')) cols')
                     else (t', cols')) S))"

fun migrate :: "db_schema \<Rightarrow> ddl list \<Rightarrow> sql_error + db_schema" where
  "migrate S [] = Inr S"
| "migrate S (d # ds) = (case run_ddl S d of Inl e \<Rightarrow> Inl e | Inr S' \<Rightarrow> migrate S' ds)"

definition init_migration :: "ddl list" where
  "init_migration =
    [CreateTable ''User''
       [(''id'', SERIAL), (''name'', TEXT), (''email'', TEXT), (''password'', TEXT),
        (''isAdmin'', BOOLEAN), (''preferredCurrencyId'', INTEGER), (''createdAt'', TIMESTAMP 3),
        (''updatedAt'', TIMESTAMP 3), (''lastLogin'', TIMESTAMP 3)],
     CreateTable ''Session''
       [(''id'', SERIAL), (''token'', TEXT), (''expiresAt'', TIMESTAMP 3),
        (''createdAt'', TIMESTAMP 3), (''isValid'', BOOLEAN), (''userId'', INTEGER)],
     CreateTable ''Expense''
       [(''id'', SERIAL), (''name'', TEXT), (''amount'', DOUBLE_PRECISION), (''isId'', INTEGER)],
     CreateTable ''Asset''
       [(''id'', SERIAL), (''name'', TEXT), (''value'', DOUBLE_PRECISION), (''bsId'', INTEGER)],
     CreateTable ''Liability''
       [(''id'', SERIAL), (''name'', TEXT), (''value'', DOUBLE_PRECISION), (''bsId'', INTEGER)],
     CreateTable ''BalanceSheet'' [(''id'', SERIAL), (''userId'', INTEGER)],
     CreateTable ''IncomeLine''
       [(''id'', SERIAL), (''name'', TEXT), (''amount'', DOUBLE_PRECISION), (''type'', TEXT),
        (''isId'', INTEGER), (''quadrant'', TEXT)],
     CreateTable ''IncomeStatement'' [(''id'', SERIAL), (''userId'', INTEGER)],
     CreateTable ''CashSavings''
       [(''id'', SERIAL), (''amount'', DOUBLE_PRECISION), (''userId'', INTEGER)],
     CreateTable ''Currency'' [(''id'', SERIAL), (''cur_symbol'', TEXT), (''cur_name'', TEXT)],
     CreateTable ''Event''
       [(''id'', SERIAL), (''timestamp'', TIMESTAMP 3), (''actionType'', TEXT),
        (''entityType'', TEXT), (''entitySubtype'', TEXT), (''userId'', INTEGER),
        (''entityId'', INTEGER), (''beforeValue'', JSONB), (''afterValue'', JSONB)],
     CreateTable ''FinancialSnapshot''
       [(''id'', TEXT), (''userId'', INTEGER), (''date'', TIMESTAMP 3), (''data'', JSONB),
        (''createdAt'', TIMESTAMP 3)]]"

definition decimal_precision_migration :: "ddl list" where
  "decimal_precision_migration =
    [AlterColumnType ''Asset'' ''value'' (DECIMAL 15 2),
     AlterColumnType ''CashSavings'' ''amount'' (DECIMAL 15 2),
     AlterColumnType ''Expense'' ''amount'' (DECIMAL 15 2),
     AlterColumnType ''IncomeLine'' ''amount'' (DECIMAL 15 2),
     AlterColumnType ''Liability'' ''value'' (DECIMAL 15 2)]"

text \<open>The columns of a schema that have a given type.\<close>

definition columnsOfType :: "db_schema \<Rightarrow> sql_type \<Rightarrow> (string \<times> string) list" where
  "columnsOfType S ty = concat (map (\<lambda>(t, cols). map (\<lambda>(c, ty'). (t, c)) (filter (\<lambda>(c, ty'). ty' = ty) cols)) S)"

section \<open>Net worth (UserFinancialView, AdminUserFinancialView)\<close>

text \<open>
  Both components read the same response of the admin API and fold the asset and the
  liability values of the balance sheet from 0, fall back to 0 when the balance sheet is
  missing or the sum is falsy, and subtract. The records are those of the components'
  interfaces, of which only the balance sheet matters to the net worth. A monetary value
  of the response is a number or, as the comment in AdminUserFinancialView says, a string.
\<close>

datatype api_value = NumberValue jsnum | StringValue string

record Asset =
  asset_id :: int
  asset_name :: string
  asset_value :: api_value

record Liability =
  liability_id :: int
  liability_name :: string
  liability_value :: api_value

record BalanceSheet =
  assets :: "Asset list"
  liabilities :: "Liability list"

record FinancialData =
  balanceSheet :: "BalanceSheet option"

text \<open>\<open>Number(x)\<close>, which \<open>-\<close> also applies to its operands.\<close>

definition toNumber :: "api_value \<Rightarrow> jsnum" where
  "toNumber v = (case v of NumberValue n \<Rightarrow> n | StringValue s \<Rightarrow> stringToNumber s)"

text \<open>
  \<open>a + b\<close> on such values: the sum of two numbers; as soon as an operand is a string, the
  concatenation of both written as strings.
\<close>

definition toStr :: "(rat \<Rightarrow> string) \<Rightarrow> api_value \<Rightarrow> string" where
  "toStr otherDigits v = (case v of NumberValue n \<Rightarrow> numberToString otherDigits n | StringValue s \<Rightarrow> s)"

definition js_plus :: "(rat \<Rightarrow> string) \<Rightarrow> api_value \<Rightarrow> api_value \<Rightarrow> api_value" where
  "js_plus otherDigits a b =
    (case (a, b) of
       (NumberValue x, NumberValue y) \<Rightarrow> NumberValue (js_add x y)
     | _ \<Rightarrow> StringValue (toStr otherDigits a @ toStr otherDigits b))"

text \<open>\<open>x || 0\<close>: the falsy values are the numbers 0 and NaN and the empty string.\<close>

definition orZero :: "api_value \<Rightarrow> api_value" where
  "orZero v =
    (case v of
       NumberValue n \<Rightarrow> NumberValue (or0 n)
     | StringValue s \<Rightarrow> if s = [] then NumberValue (Fin 0) else v)"

text \<open>UserFinancialView adds the values as they come.\<close>

definition totalAssets :: "(rat \<Rightarrow> string) \<Rightarrow> FinancialData \<Rightarrow> api_value" where
  "totalAssets otherDigits financialData =
    (case balanceSheet financialData of
       None \<Rightarrow> NumberValue (Fin 0)
     | Some bs \<Rightarrow>
         orZero (foldl (\<lambda>sum asset. js_plus otherDigits sum (asset_value asset))
                   (NumberValue (Fin 0)) (assets bs)))"

definition totalLiabilities :: "(rat \<Rightarrow> string) \<Rightarrow> FinancialData \<Rightarrow> api_value" where
  "totalLiabilities otherDigits financialData =
    (case balanceSheet financialData of
       None \<Rightarrow> NumberValue (Fin 0)
     | Some bs \<Rightarrow>
         orZero (foldl (\<lambda>sum liability. js_plus otherDigits sum (liability_value liability))
                   (NumberValue (Fin 0)) (liabilities bs)))"

definition netWorth :: "(rat \<Rightarrow> string) \<Rightarrow> FinancialData \<Rightarrow> jsnum" where
  "netWorth otherDigits financialData =
    js_sub (toNumber (totalAssets otherDigits financialData))
           (toNumber (totalLiabilities otherDigits financialData))"

text \<open>AdminUserFinancialView passes each value through \<open>Number(...)\<close> first.\<close>

definition admin_totalAssets :: "FinancialData \<Rightarrow> jsnum" where
  "admin_totalAssets financialData =
    (case balanceSheet financialData of
       None \<Rightarrow> Fin 0
     | Some bs \<Rightarrow>
         or0 (foldl (\<lambda>sum asset. js_add sum (toNumber (asset_value asset))) (Fin 0) (assets bs)))"

definition admin_totalLiabilities :: "FinancialData \<Rightarrow> jsnum" where
  "admin_totalLiabilities financialData =
    (case balanceSheet financialData of
       None \<Rightarrow> Fin 0
     | Some bs \<Rightarrow>
         or0 (foldl (\<lambda>sum liability. js_add sum (toNumber (liability_value liability)))
                (Fin 0) (liabilities bs)))"

definition admin_netWorth :: "FinancialData \<Rightarrow> jsnum" where
  "admin_netWorth financialData =
    js_sub (admin_totalAssets financialData) (admin_totalLiabilities financialData)"

section \<open>Income totals (useIncome.ts)\<close>

datatype IncomeQuadrant = EMPLOYEE | SELF_EMPLOYED | BUSINESS_OWNER | INVESTOR

datatype IncomeType = Earned | Portfolio | Passive

record IncomeItem =
  item_id :: int
  item_name :: string
  item_amount :: jsnum
  item_type :: IncomeType
  item_quadrant :: IncomeQuadrant

record NormalizedIncome =
  earned_items :: "IncomeItem list"
  portfolio_items :: "IncomeItem list"
  passive_items :: "IncomeItem list"
  all_items :: "IncomeItem list"

record IncomeTotals =
  earned_total :: jsnum
  portfolio_total :: jsnum
  passive_total :: jsnum
  total :: jsnum
  passiveAndPortfolio :: jsnum

text \<open>
  The fields of an item and the lists of a normalized response carry the source's names
  after \<open>item_\<close> and before \<open>_items\<close>; the sums of the three lists are \<open>earned_total\<close>,
  \<open>portfolio_total\<close> and \<open>passive_total\<close>.

  An item of the API response, with the types the casts of \<open>normalizeIncomeItem\<close> give its
  fields: \<open>amount\<close> is a number or a string, \<open>type\<close> a string or missing (the \<open>?.\<close> of
  \<open>parseIncomeType\<close>), \<open>quadrant\<close> a string or anything else.
\<close>

datatype raw_amount = AmountNumber jsnum | AmountString string

record RawIncome =
  raw_id :: int
  raw_name :: string
  raw_amount :: raw_amount
  raw_type :: "string option"
  raw_quadrant :: "string option"

text \<open>
  \<open>toUpperCase\<close> is a builtin of the language whose result may leave the code units below
  256 (it takes \<open>U+00FF\<close> to \<open>U+0178\<close>) or grow (\<open>U+00DF\<close> to \<open>SS\<close>): it is a parameter of the
  functions that call it. \<open>asciiUpperCase\<close> is what it does on the strings of ASCII letters,
  digits and punctuation, on which the examples are evaluated.
\<close>

definition asciiUpperCase :: "string \<Rightarrow> string" where
  "asciiUpperCase s =
    map (\<lambda>c. case List.find (\<lambda>(l, u). l = c)
                     (zip ''abcdefghijklmnopqrstuvwxyz'' ''ABCDEFGHIJKLMNOPQRSTUVWXYZ'') of
                Some (l, u) \<Rightarrow> u
              | None \<Rightarrow> c) s"

fun typeQuadrantFallback :: "IncomeType \<Rightarrow> IncomeQuadrant" where
  "typeQuadrantFallback Earned = EMPLOYEE"
| "typeQuadrantFallback Portfolio = INVESTOR"
| "typeQuadrantFallback Passive = BUSINESS_OWNER"

definition normalizeQuadrant :: "(string \<Rightarrow> string) \<Rightarrow> string option \<Rightarrow> IncomeQuadrant \<Rightarrow> IncomeQuadrant" where
  "normalizeQuadrant toUpperCase v fallback =
    (case v of
       Some s \<Rightarrow>
         (let normalized = toUpperCase (trim s) in
          if normalized = ''EMPLOYEE'' then EMPLOYEE
          else if normalized = ''SELF_EMPLOYED'' then SELF_EMPLOYED
          else if normalized = ''BUSINESS_OWNER'' then BUSINESS_OWNER
          else if normalized = ''INVESTOR'' then INVESTOR
          else fallback)
     | None \<Rightarrow> fallback)"

definition parseIncomeType :: "(string \<Rightarrow> string) \<Rightarrow> string option \<Rightarrow> IncomeType" where
  "parseIncomeType toUpperCase t =
    (let upper = map_option toUpperCase t in
     if upper = Some ''EARNED'' then Earned
     else if upper = Some ''PORTFOLIO'' then Portfolio
     else if upper = Some ''PASSIVE'' then Passive
     else Earned)"

definition normalizeIncomeItem :: "(string \<Rightarrow> string) \<Rightarrow> RawIncome \<Rightarrow> IncomeItem" where
  "normalizeIncomeItem toUpperCase item =
    (let ty = parseIncomeType toUpperCase (raw_type item) in
     \<lparr>item_id = raw_id item,
      item_name = raw_name item,
      item_amount = (case raw_amount item of AmountNumber n \<Rightarrow> n | AmountString s \<Rightarrow> parseFloat s),
      item_type = ty,
      item_quadrant = normalizeQuadrant toUpperCase (raw_quadrant item) (typeQuadrantFallback ty)\<rparr>)"

text \<open>The response is an array of items, or anything else (\<open>None\<close>), read as no item.\<close>

definition normalizeIncomeData :: "(string \<Rightarrow> string) \<Rightarrow> RawIncome list option \<Rightarrow> NormalizedIncome" where
  "normalizeIncomeData toUpperCase data =
    (let incomeLines = (case data of Some xs \<Rightarrow> xs | None \<Rightarrow> []);
         al = map (normalizeIncomeItem toUpperCase) incomeLines
     in \<lparr>earned_items = filter (\<lambda>i. item_type i = Earned) al,
         portfolio_items = filter (\<lambda>i. item_type i = Portfolio) al,
         passive_items = filter (\<lambda>i. item_type i = Passive) al,
         all_items = al\<rparr>)"

definition calculateIncomeTotals :: "NormalizedIncome \<Rightarrow> IncomeTotals" where
  "calculateIncomeTotals income =
    (let e = foldl (\<lambda>sum i. js_add sum (item_amount i)) (Fin 0) (earned_items income);
         po = foldl (\<lambda>sum i. js_add sum (item_amount i)) (Fin 0) (portfolio_items income);
         pa = foldl (\<lambda>sum i. js_add sum (item_amount i)) (Fin 0) (passive_items income)
     in \<lparr>earned_total = e,
         portfolio_total = po,
         passive_total = pa,
         total = js_add (js_add e po) pa,
         passiveAndPortfolio = js_add pa po\<rparr>)"

section \<open>The trajectory handler (analysis controller)\<close>

text \<open>
  The request as the handler reads it: \<open>req.user?.userId\<close> and the three query parameters,
  each a string or missing. \<open>getFinancialTrajectory\<close> lives in the analysis service, which
  the handler only calls: it is a parameter that returns the trajectory or throws a value
  whose \<open>message\<close> is a string or missing. The handler's result is the response it sends
  and the calls it has made to the service, in order. The \<open>console.error\<close> of the
  \<open>catch\<close> block is not modelled.
\<close>

record Request =
  req_userId :: "int option"
  startDate :: "string option"
  endDate :: "string option"
  interval :: "string option"

datatype 't body = ErrorBody string | Payload 't

record 't Response =
  status :: nat
  json :: "'t body"

type_synonym trajectory_call = "int \<times> string \<times> string \<times> string"

text \<open>
  A number or a string that may be missing, under a truth test: the value when it is
  truthy (a number other than 0, a non-empty string), \<open>None\<close> when \<open>!x\<close> holds.
\<close>

definition truthyNumber :: "int option \<Rightarrow> int option" where
  "truthyNumber x = (case x of None \<Rightarrow> None | Some n \<Rightarrow> if n = 0 then None else Some n)"

definition truthyString :: "string option \<Rightarrow> string option" where
  "truthyString x = (case x of None \<Rightarrow> None | Some s \<Rightarrow> if s = [] then None else Some s)"

text \<open>\<open>x || d\<close> on strings.\<close>

definition orElse :: "string option \<Rightarrow> string \<Rightarrow> string" where
  "orElse x d = (case truthyString x of None \<Rightarrow> d | Some s \<Rightarrow> s)"

definition getFinancialTrajectoryHandler ::
    "(int \<Rightarrow> string \<Rightarrow> string \<Rightarrow> string \<Rightarrow> string option + 't) \<Rightarrow> Request
      \<Rightarrow> 't Response \<times> trajectory_call list" where
  "getFinancialTrajectoryHandler getFinancialTrajectory req =
    (case truthyNumber (req_userId req) of
       None \<Rightarrow> (\<lparr>status = 401, json = ErrorBody ''Authentication required''\<rparr>, [])
     | Some userId \<Rightarrow>
         (let ival = orElse (interval req) ''monthly'' in
          case (truthyString (startDate req), truthyString (endDate req)) of
            (Some sd, Some ed) \<Rightarrow>
              (case getFinancialTrajectory userId sd ed ival of
                 Inr trajectory \<Rightarrow>
                   (\<lparr>status = 200, json = Payload trajectory\<rparr>, [(userId, sd, ed, ival)])
               | Inl msg \<Rightarrow>
                   (\<lparr>status = 500,
                     json = ErrorBody (orElse msg ''Failed to get financial trajectory'')\<rparr>,
                    [(userId, sd, ed, ival)]))
          | _ \<Rightarrow> (\<lparr>status = 400, json = ErrorBody ''startDate and endDate are required''\<rparr>, [])))"

section \<open>Example inputs\<close>

definition income_example :: "jsval \<Rightarrow> jsval" where
  "income_example amt = JObj [(''name'', JStr ''Job''), (''amount'', amt), (''type'', JStr ''Earned'')]"

text \<open>
  A response of the admin API whose monetary values are strings: two assets worth 100 and
  200, one liability of 50.
\<close>

definition string_balance :: FinancialData where
  "string_balance =
    \<lparr>balanceSheet = Some
      \<lparr>assets = [\<lparr>asset_id = 1, asset_name = ''Car'', asset_value = StringValue ''100''\<rparr>,
                 \<lparr>asset_id = 2, asset_name = ''Bike'', asset_value = StringValue ''200''\<rparr>],
       liabilities = [\<lparr>liability_id = 1, liability_name = ''Loan'',
                       liability_value = StringValue ''50''\<rparr>]\<rparr>\<rparr>"

text \<open>The scenario of the spec: a house worth 300000 and a mortgage of 250000, as numbers.\<close>

definition house_mortgage :: FinancialData where
  "house_mortgage =
    \<lparr>balanceSheet = Some
      \<lparr>assets = [\<lparr>asset_id = 1, asset_name = ''House'', asset_value = NumberValue (Fin 300000)\<rparr>],
       liabilities = [\<lparr>liability_id = 1, liability_name = ''Mortgage'',
                       liability_value = NumberValue (Fin 250000)\<rparr>]\<rparr>\<rparr>"

text \<open>Three requests to the trajectory handler and a service that answers every call.\<close>

definition no_user_request :: Request where
  "no_user_request = \<lparr>req_userId = None, startDate = Some ''2025-01-01'', endDate = Some ''2025-12-31'', interval = Some ''daily''\<rparr>"

definition no_end_request :: Request where
  "no_end_request = \<lparr>req_userId = Some 7, startDate = Some ''2025-01-01'', endDate = None, interval = Some ''daily''\<rparr>"

definition no_interval_request :: Request where
  "no_interval_request = \<lparr>req_userId = Some 7, startDate = Some ''2025-01-01'', endDate = Some ''2025-12-31'', interval = None\<rparr>"

definition sample_service :: "int \<Rightarrow> string \<Rightarrow> string \<Rightarrow> string \<Rightarrow> string option + nat list" where
  "sample_service uid sd ed ival = Inr [1, 2, 3]"

text \<open>
  An API response with one income of each type and one of an unknown type, all of whole
  amounts.
\<close>

definition income_lines :: "RawIncome list" where
  "income_lines =
    [\<lparr>raw_id = 1, raw_name = ''Salary'', raw_amount = AmountNumber (Fin 5000),
      raw_type = Some ''Earned'', raw_quadrant = Some ''employee''\<rparr>,
     \<lparr>raw_id = 2, raw_name = ''Dividends'', raw_amount = AmountNumber (Fin 1200),
      raw_type = Some ''portfolio'', raw_quadrant = None\<rparr>,
     \<lparr>raw_id = 3, raw_name = ''Rent'', raw_amount = AmountNumber (Fin 800),
      raw_type = Some ''PASSIVE'', raw_quadrant = None\<rparr>,
     \<lparr>raw_id = 4, raw_name = ''Gift'', raw_amount = AmountNumber (Fin 100),
      raw_type = Some ''Bonus'', raw_quadrant = None\<rparr>]"

text \<open>
  A response with the amounts 0.1 (earned), 0.1 (portfolio) and 1.1 (earned). The number
  a program writes as 0.1 is the double nearest to one tenth.
\<close>

definition tenth_lines :: "RawIncome list" where
  "tenth_lines =
    [\<lparr>raw_id = 1, raw_name = ''Tips'', raw_amount = AmountNumber (roundDouble (1 / 10)),
      raw_type = Some ''Earned'', raw_quadrant = None\<rparr>,
     \<lparr>raw_id = 2, raw_name = ''Interest'', raw_amount = AmountNumber (roundDouble (1 / 10)),
      raw_type = Some ''Portfolio'', raw_quadrant = None\<rparr>,
     \<lparr>raw_id = 3, raw_name = ''Refund'', raw_amount = AmountNumber (roundDouble (11 / 10)),
      raw_type = Some ''Earned'', raw_quadrant = None\<rparr>]"

section \<open>Rounding is exact on whole numbers\<close>

lemma bitLength_bounds:
  "0 < n \<Longrightarrow> (2::nat) ^ (bitLength n - 1) \<le> n \<and> n < 2 ^ bitLength n"
proof (induction n rule: bitLength.induct)
  case (1 n)
  show ?case
  proof (cases "n div 2 = 0")
    case True
    with 1(2) have "n = 1" by (simp add: div_eq_0_iff) 
    then show ?thesis by (simp add: bitLength.simps)
  next
    case False
    with 1 have ih: "(2::nat) ^ (bitLength (n div 2) - 1) \<le> n div 2" "n div 2 < 2 ^ bitLength (n div 2)"
      by auto
    from False have pos: "0 < bitLength (n div 2)" by (simp add: bitLength.simps)
    have bl: "bitLength n = Suc (bitLength (n div 2))" using 1(2) by (subst bitLength.simps) simp
    have "(2::nat) ^ bitLength (n div 2) = 2 * 2 ^ (bitLength (n div 2) - 1)"
      using pos by (cases "bitLength (n div 2)") simp_all
    with ih(1) have lo: "(2::nat) ^ bitLength (n div 2) \<le> n" by simp
    from ih(2) have hi: "n < 2 * 2 ^ bitLength (n div 2)" by simp
    from lo hi bl show ?thesis by simp
  qed
qed

lemma roundHalfEven_of_int: "roundHalfEven (of_int z) = z"
  by (simp add: roundHalfEven_def)

lemma roundDouble_of_nat:
  assumes "0 < m" and "m \<le> 9007199254740992"
  shows "rat_of_int (roundHalfEven (of_nat m / pow2 (max (floorLog2 (of_nat m)) (- 1022) - 52)))
           * pow2 (max (floorLog2 (of_nat m)) (- 1022) - 52) = rat_of_nat m
         \<and> max (floorLog2 (of_nat m)) (- 1022) - 52 \<le> 1"
proof -
  define k where "k = bitLength m - 1"
  from bitLength_bounds [OF assms(1)] have b: "2 ^ k \<le> m" "m < 2 ^ Suc k"
    unfolding k_def by (cases "bitLength m"; simp)+
  have fl: "floorLog2 (of_nat m) = int k"
    using assms(1) b unfolding floorLog2_def k_def
    by (cases "bitLength m") (simp_all add: bitLength.simps)
  have k53: "k \<le> 53"
  proof (rule ccontr)
    assume "\<not> k \<le> 53"
    then have "54 \<le> k" by simp
    then have "(2::nat) ^ 54 \<le> 2 ^ k" by (rule power_increasing) simp
    with b(1) assms(2) show False by simp
  qed
  have e: "max (floorLog2 (of_nat m)) (- 1022) - 52 = int k - 52"
    by (simp add: fl)
  show ?thesis
  proof (cases "k \<le> 52")
    case True
    have p: "pow2 (int k - 52) = 1 / 2 ^ (52 - k)"
    proof (cases "k = 52")
      case True
      then show ?thesis by (simp add: pow2_def)
    next
      case False
      with \<open>k \<le> 52\<close> have "k < 52" by simp
      then have "nat (52 - int k) = 52 - k" by simp
      with \<open>k < 52\<close> show ?thesis by (simp add: pow2_def)
    qed
    have q: "(of_nat m :: rat) / (1 / 2 ^ (52 - k)) = of_int (int (m * 2 ^ (52 - k)))"
      by simp
    show ?thesis
      unfolding e p q roundHalfEven_of_int using True by simp
  next
    case False
    with k53 have k: "k = 53" by simp
    with b(1) assms(2) have m: "m = 9007199254740992" by simp
    have p: "pow2 (int k - 52) = 2" using k by (simp add: pow2_def)
    have q: "rat_of_nat m / 2 = of_int 4503599627370496" using m by simp
    show ?thesis
      unfolding e p q roundHalfEven_of_int using m k by simp
  qed
qed

text \<open>A whole number of magnitude up to \<open>2 ^ 53\<close> is a double.\<close>

lemma roundDouble_of_int:
  assumes "\<bar>n\<bar> \<le> 9007199254740992"
  shows "roundDouble (of_int n) = Fin (of_int n)"
proof (cases "n = 0")
  case True
  then show ?thesis by (simp add: roundDouble_def)
next
  case False
  define m where "m = nat \<bar>n\<bar>"
  from False assms have m: "0 < m" "m \<le> 9007199254740992" by (simp_all add: m_def)
  have a: "\<bar>of_int n :: rat\<bar> = of_nat m" by (simp add: m_def)
  note r = roundDouble_of_nat [OF m]
  define e where "e = max (floorLog2 (of_nat m)) (- 1022) - 52"
  from r have r1: "rat_of_int (roundHalfEven (of_nat m / pow2 e)) * pow2 e = of_nat m" and r2: "e \<le> 1"
    unfolding e_def by simp_all
  have "roundDouble (of_int n) = Fin (if (of_int n :: rat) < 0 then - of_nat m else of_nat m)"
    using False r1 r2 unfolding roundDouble_def a Let_def e_def [symmetric]
    by simp
  also have "(if (of_int n :: rat) < 0 then - of_nat m else of_nat m) = (of_int n :: rat)"
    by (simp add: m_def)
  finally show ?thesis .
qed

lemma js_add_whole:
  "\<bar>a + b\<bar> \<le> 9007199254740992 \<Longrightarrow> js_add (Fin (of_int a)) (Fin (of_int b)) = Fin (of_int (a + b))"
  using roundDouble_of_int [of "a + b"] by simp

lemma js_sub_whole:
  "\<bar>a - b\<bar> \<le> 9007199254740992 \<Longrightarrow> js_sub (Fin (of_int a)) (Fin (of_int b)) = Fin (of_int (a - b))"
  using js_add_whole [of a "- b"] by (simp add: js_sub_def)

section \<open>Properties of the event payload validator\<close>

lemma monetary_accepts_object: "monetaryValueSchema L p (JObj ob) = Valid (JObj ob)"
  by (simp add: monetaryValueSchema_def z_union_def z_number_def z_object_def mkIssue_def)

lemma z_number_valid_same: "z_number L cs p v = Valid w \<Longrightarrow> w = v \<and> v \<noteq> JUndefined"
  by (cases v) (auto simp: z_number_def Let_def split: if_splits)

lemma string_result_same:
  "z_string L cs p v = Valid w \<Longrightarrow> w = v \<and> v \<noteq> JUndefined"
  by (cases v) (auto simp: z_string_def Let_def split: if_splits)

lemma refine_valid_same: "z_string_refine L pred m p v = Valid w \<Longrightarrow> w = v \<and> v \<noteq> JUndefined"
  by (cases "z_string L [] p v")
     (auto simp: z_string_refine_def Let_def split: if_splits dest: string_result_same)

lemma object_valid_same: "z_object L [] True p v = Valid w \<Longrightarrow> w = v \<and> v \<noteq> JUndefined"
  by (cases v) (auto simp: z_object_def)

lemma monetary_result_same:
  assumes "monetaryValueSchema L p v = Valid w"
  shows "w = v \<and> v \<noteq> JUndefined"
proof -
  from assms have "firstValid [z_number L [nonnegative], z_object L [] True,
       z_string_refine L (\<lambda>val. \<not> isNaN (parseFloat val)) ''Must be a valid number string''] p v = Some w"
    by (auto simp: monetaryValueSchema_def z_union_def split: option.splits)
  then show ?thesis
    by (auto split: parsed.splits dest: z_number_valid_same object_valid_same refine_valid_same)
qed

lemma string_accepts_nonempty:
  "nonEmptyString v \<Longrightarrow> n \<le> 1 \<Longrightarrow> z_string L [min_length n m] p v = Valid v"
  by (cases v) (auto simp: nonEmptyString_def z_string_def min_length_def Let_def le_Suc_eq)

lemma quadrant_accepts:
  "optionalNullableString v \<Longrightarrow> z_nullable (z_optional (z_string L [])) p v = Valid v"
  by (cases v) (auto simp: optionalNullableString_def z_nullable_def z_optional_def z_string_def)

lemma roundDouble_1200_50: "roundDouble (2401 / 2) = Fin (2401 / 2)"
  by code_simp

lemma parseFloat_1200_50: "parseFloat ''1200.50'' = Fin (2401 / 2)"
  by (simp add: parseFloat_def readDecimal_def isWhiteSpace_def isDigit_def startsWith_def
      digitsVal_def digitVal_def digitIn_def pow10_def roundDouble_1200_50)

lemma parseFloat_minus_5: "parseFloat ''-5'' = Fin (- 5)"
  using roundDouble_of_int [of "- 5"]
  by (simp add: parseFloat_def readDecimal_def isWhiteSpace_def isDigit_def startsWith_def
      digitsVal_def digitVal_def digitIn_def pow10_def)

lemma monetary_accepts_1200_50: "monetaryValueSchema L p (JStr ''1200.50'') = Valid (JStr ''1200.50'')"
  by (simp add: monetaryValueSchema_def z_union_def z_number_def z_object_def z_string_refine_def
      z_string_def mkIssue_def parseFloat_1200_50)

lemma monetary_accepts_minus_5: "monetaryValueSchema L p (JStr ''-5'') = Valid (JStr ''-5'')"
  by (simp add: monetaryValueSchema_def z_union_def z_number_def z_object_def z_string_refine_def
      z_string_def mkIssue_def parseFloat_minus_5)

lemma monetary_rejects_negative_number:
  "r < 0 \<Longrightarrow> monetaryValueSchema L p (JNum (Fin r))
      = Dirty [mkIssue p (defaultMessage L (too_small True))]"
  by (simp add: monetaryValueSchema_def z_union_def z_number_def z_object_def z_string_refine_def
      z_string_def mkIssue_def nonnegative_def)

lemma monetary_accepts_nonnegative_number:
  "0 \<le> r \<Longrightarrow> monetaryValueSchema L p (JNum (Fin r)) = Valid (JNum (Fin r))"
  by (simp add: monetaryValueSchema_def z_union_def z_number_def nonnegative_def)

lemma income_example_string:
  "validateEventPayload L INCOME (income_example (JStr ''1200.50'')) = Inr (income_example (JStr ''1200.50''))"
  by (simp add: validateEventPayload_def IncomeEventDataSchema_def income_example_def z_object_def
        getProp_def hasKey_def monetary_accepts_1200_50 string_accepts_nonempty quadrant_accepts
        nonEmptyString_def optionalNullableString_def)

lemma income_example_number:
  "validateEventPayload L INCOME (income_example (JNum (Fin (2401 / 2)))) = Inr (income_example (JNum (Fin (2401 / 2))))"
  by (simp add: validateEventPayload_def IncomeEventDataSchema_def income_example_def z_object_def
        getProp_def hasKey_def monetary_accepts_nonnegative_number string_accepts_nonempty quadrant_accepts
        nonEmptyString_def optionalNullableString_def)

text \<open>
  Against claim C2 as stated. The spec's example payload comes back with its amount still
  the string \<open>'1200.50'\<close>, and the same quantity sent as a number comes back as that
  number: the two results differ, so the validator has normalized neither to a common
  decimal value.
\<close>

theorem validate_normalizes_counterexample:
  "validateEventPayload zod_sample INCOME (income_example (JStr ''1200.50''))
     = Inr (income_example (JStr ''1200.50''))
   \<and> validateEventPayload zod_sample INCOME (income_example (JNum (Fin (2401 / 2))))
     = Inr (income_example (JNum (Fin (2401 / 2))))
   \<and> validateEventPayload zod_sample INCOME (income_example (JStr ''1200.50''))
     \<noteq> validateEventPayload zod_sample INCOME (income_example (JNum (Fin (2401 / 2))))"
  by (simp add: income_example_string income_example_number) (simp add: income_example_def)

lemma z_object_result:
  assumes "z_object L sh pt p v = Valid d"
  shows "\<exists>fs. v = JObj fs \<and> fst (parseShape sh p fs) = valid
           \<and> d = JObj (snd (snd (parseShape sh p fs))
                        @ (if pt then filter (\<lambda>(k, w). k \<notin> set (map fst sh)) fs else []))"
  using assms
  by (cases v) (auto simp: z_object_def split: prod.splits parse_status.splits)

lemma worse_valid: "worse a b = valid \<Longrightarrow> a = valid \<and> b = valid"
  by (cases a; cases b) simp_all

lemma parseShape_Cons_valid:
  assumes "fst (parseShape ((k, s) # sh) p fs) = valid"
  shows "fst (parseShape sh p fs) = valid \<and> (\<exists>w. s (p @ [k]) (getProp fs k) = Valid w)"
  using assms
  by (cases "s (p @ [k]) (getProp fs k)")
     (auto split: prod.splits dest: worse_valid)

lemma parseShape_valid_field:
  assumes "fst (parseShape sh p fs) = valid" and "(k, s) \<in> set sh"
  shows "\<exists>w. s (p @ [k]) (getProp fs k) = Valid w"
  using assms
proof (induction sh)
  case Nil
  then show ?case by simp
next
  case (Cons a sh)
  obtain k' s' where a: "a = (k', s')" by (cases a)
  from parseShape_Cons_valid [of k' s' sh p fs] Cons.prems(1) a
  have t: "fst (parseShape sh p fs) = valid" and h: "\<exists>w. s' (p @ [k']) (getProp fs k') = Valid w"
    by auto
  show ?case
  proof (cases "(k, s) = a")
    case True
    with a h show ?thesis by auto
  next
    case False
    with Cons.prems(2) have "(k, s) \<in> set sh" by auto
    with t show ?thesis by (rule Cons.IH)
  qed
qed

lemma parseShape_lookup:
  assumes "fst (parseShape sh p fs) = valid"
    and "map_of sh k = Some s"
    and "distinct (map fst sh)"
    and "\<And>v w. s (p @ [k]) v = Valid w \<Longrightarrow> w = v \<and> v \<noteq> JUndefined"
  shows "map_of (snd (snd (parseShape sh p fs))) k = Some (getProp fs k)"
  using assms(1-3)
proof (induction sh)
  case Nil
  then show ?case by simp
next
  case (Cons a sh)
  obtain k' s' where a: "a = (k', s')" by (cases a)
  from parseShape_Cons_valid [of k' s' sh p fs] Cons.prems(1) a
  obtain w where t: "fst (parseShape sh p fs) = valid" and w: "s' (p @ [k']) (getProp fs k') = Valid w"
    by auto
  show ?case
  proof (cases "k' = k")
    case True
    with Cons.prems(2) a have s': "s' = s" by simp
    with w True assms(4) have "w = getProp fs k" "getProp fs k \<noteq> JUndefined" by auto
    with a w True s' show ?thesis by (simp split: prod.splits)
  next
    case False
    with Cons.prems a t have "map_of (snd (snd (parseShape sh p fs))) k = Some (getProp fs k)"
      by (intro Cons.IH) auto
    with a w False show ?thesis by (auto split: prod.splits)
  qed
qed

lemma object_field_unchanged:
  assumes "z_object L sh False p v = Valid d"
    and "map_of sh k = Some s"
    and "distinct (map fst sh)"
    and "\<And>v w. s (p @ [k]) v = Valid w \<Longrightarrow> w = v \<and> v \<noteq> JUndefined"
  shows "\<exists>fs out. v = JObj fs \<and> d = JObj out \<and> getProp out k = getProp fs k"
proof -
  from z_object_result [OF assms(1)] obtain fs where
    v: "v = JObj fs" and ok: "fst (parseShape sh p fs) = valid"
    and d: "d = JObj (snd (snd (parseShape sh p fs)))"
    by auto
  from parseShape_lookup [OF ok assms(2,3)] assms(4)
  have "map_of (snd (snd (parseShape sh p fs))) k = Some (getProp fs k)" by blast
  then have "getProp (snd (snd (parseShape sh p fs))) k = getProp fs k"
    by (simp add: getProp_def)
  with v d show ?thesis by blast
qed

lemma schema_of_entity:
  "validateEventPayload L et payload = Inr data
    \<Longrightarrow> \<exists>schema. eventDataSchemaMap L et = Some schema \<and> schema [] payload = Valid data"
  by (auto simp: validateEventPayload_def Let_def split: option.splits parsed.splits)

text \<open>
  Claim C2, amended. For every entity type with a monetary field, a payload that
  \<open>validateEventPayload\<close> accepts is an object, the result is an object, and the monetary
  field of the result is the monetary field of the payload, in the representation it
  arrived in: a number stays that number, a string that string, an object that object.
\<close>

theorem validate_monetary_unchanged:
  assumes "monetaryField et = Some k"
    and "validateEventPayload L et payload = Inr data"
  shows "\<exists>fs out. payload = JObj fs \<and> data = JObj out \<and> getProp out k = getProp fs k"
proof -
  from schema_of_entity [OF assms(2)] obtain schema where
    sc: "eventDataSchemaMap L et = Some schema" and r: "schema [] payload = Valid data"
    by blast
  have m: "\<And>v w. monetaryValueSchema L ([] @ [k]) v = Valid w \<Longrightarrow> w = v \<and> v \<noteq> JUndefined"
    by (rule monetary_result_same)
  show ?thesis
  proof (cases et)
    case ASSET
    with sc r assms(1) show ?thesis
      by (intro object_field_unchanged [where s = "monetaryValueSchema L" and L = L and p = "[]"] m)
         (auto simp: AssetEventDataSchema_def)
  next
    case LIABILITY
    with sc r assms(1) show ?thesis
      by (intro object_field_unchanged [where s = "monetaryValueSchema L" and L = L and p = "[]"] m)
         (auto simp: LiabilityEventDataSchema_def)
  next
    case EXPENSE
    with sc r assms(1) show ?thesis
      by (intro object_field_unchanged [where s = "monetaryValueSchema L" and L = L and p = "[]"] m)
         (auto simp: ExpenseEventDataSchema_def)
  next
    case INCOME
    with sc r assms(1) show ?thesis
      by (intro object_field_unchanged [where s = "monetaryValueSchema L" and L = L and p = "[]"] m)
         (auto simp: IncomeEventDataSchema_def)
  next
    case CASH_SAVINGS
    with sc r assms(1) show ?thesis
      by (intro object_field_unchanged [where s = "monetaryValueSchema L" and L = L and p = "[]"] m)
         (auto simp: CashSavingsEventDataSchema_def)
  next
    case USER
    with assms(1) show ?thesis by simp
  qed
qed

text \<open>
  The amended claim at the spec's example: the INCOME payload with amount \<open>'1200.50'\<close> is
  accepted and its amount is returned as the string \<open>'1200.50'\<close>.
\<close>

theorem validate_monetary_unchanged_witness:
  "monetaryField INCOME = Some ''amount''
   \<and> validateEventPayload zod_sample INCOME (income_example (JStr ''1200.50''))
       = Inr (income_example (JStr ''1200.50''))
   \<and> (\<exists>fs out. income_example (JStr ''1200.50'') = JObj fs
         \<and> income_example (JStr ''1200.50'') = JObj out
         \<and> getProp out ''amount'' = getProp fs ''amount''
         \<and> getProp out ''amount'' = JStr ''1200.50'')"
proof -
  have h1: "monetaryField INCOME = Some ''amount''" by simp
  have h2: "validateEventPayload zod_sample INCOME (income_example (JStr ''1200.50''))
       = Inr (income_example (JStr ''1200.50''))" by (rule income_example_string)
  from validate_monetary_unchanged [OF h1 h2] h1 h2 show ?thesis
    by (auto simp: income_example_def getProp_def)
qed

text \<open>
  Claim C3 asks that a negative monetary quantity be rejected in every representation.
  The number branch of \<open>monetaryValueSchema\<close> checks the sign; the string branch only asks
  that \<open>parseFloat\<close> is not NaN. Here the code is run on an EXPENSE payload whose amount is
  the string \<open>'-5'\<close>: it is accepted, though \<open>parseFloat\<close> reads it as a negative number.
\<close>

theorem negative_string_amount_accepted:
  "validateEventPayload L EXPENSE (JObj [(''name'', JStr ''Rent''), (''amount'', JStr ''-5'')])
     = Inr (JObj [(''name'', JStr ''Rent''), (''amount'', JStr ''-5'')])
   \<and> js_lt0 (parseFloat ''-5'')"
  by (simp add: validateEventPayload_def ExpenseEventDataSchema_def z_object_def
        getProp_def hasKey_def monetary_accepts_minus_5 string_accepts_nonempty 
        nonEmptyString_def parseFloat_minus_5)

lemma asset_empty_name_rejected:
  "validateEventPayload L ASSET (JObj [(''name'', JStr ''''), (''value'', JNum (Fin 10))])
     = Inl (ErrorObj ''Invalid ASSET event payload: name: Asset name is required'')"
  by (simp add: validateEventPayload_def AssetEventDataSchema_def z_object_def getProp_def hasKey_def
        monetary_accepts_nonnegative_number z_string_def min_length_def mkIssue_def)

lemma expense_negative_number_rejected:
  "validateEventPayload L EXPENSE (JObj [(''name'', JStr ''Rent''), (''amount'', JNum (Fin (- 5)))])
     = Inl (ErrorObj (''Invalid EXPENSE event payload: amount: '' @ defaultMessage L (too_small True)))"
  by (simp add: validateEventPayload_def ExpenseEventDataSchema_def z_object_def getProp_def hasKey_def
        monetary_rejects_negative_number string_accepts_nonempty nonEmptyString_def mkIssue_def)

lemma expense_negative_number_message:
  "validateEventPayload zod_sample EXPENSE (JObj [(''name'', JStr ''Rent''), (''amount'', JNum (Fin (- 5)))])
     = Inl (ErrorObj ''Invalid EXPENSE event payload: amount: Number must be greater than or equal to 0'')"
  by (simp add: expense_negative_number_rejected zod_sample_def)

text \<open>
  Claim C4. The three example payloads of the spec. An ASSET with an empty name throws,
  with the message of the name check. An EXPENSE with the native number \<open>-5\<close> as amount
  throws: the number branch of the monetary union finds the value a number that fails
  \<open>.nonnegative()\<close>, the two other branches find it of the wrong type, and the union
  reports the issue of the number branch, of which the library supplies the text; with
  the texts of version 3 the message ends in \<open>Number must be greater than or equal to 0\<close>.
  The INCOME payload with amount \<open>'1200.50'\<close> returns normally.
\<close>

theorem payload_rejection_examples:
  "validateEventPayload L ASSET (JObj [(''name'', JStr ''''), (''value'', JNum (Fin 10))])
     = Inl (ErrorObj ''Invalid ASSET event payload: name: Asset name is required'')
   \<and> validateEventPayload L EXPENSE (JObj [(''name'', JStr ''Rent''), (''amount'', JNum (Fin (- 5)))])
     = Inl (ErrorObj (''Invalid EXPENSE event payload: amount: '' @ defaultMessage L (too_small True)))
   \<and> validateEventPayload zod_sample EXPENSE (JObj [(''name'', JStr ''Rent''), (''amount'', JNum (Fin (- 5)))])
     = Inl (ErrorObj ''Invalid EXPENSE event payload: amount: Number must be greater than or equal to 0'')
   \<and> validateEventPayload L INCOME (income_example (JStr ''1200.50''))
     = Inr (income_example (JStr ''1200.50''))"
  using asset_empty_name_rejected [of L] expense_negative_number_rejected [of L]
    expense_negative_number_message income_example_string [of L]
  by blast

lemma validate_throws_Error: "validateEventPayload L et p \<noteq> Inl (NonError x)"
  by (auto simp: validateEventPayload_def Let_def split: option.splits parsed.splits)

text \<open>
  Claim C5. \<open>safeValidateEventPayload\<close> is a total function into the two result objects,
  so it never raises. It answers \<open>{success: true, data}\<close> exactly when
  \<open>validateEventPayload\<close> returns \<open>data\<close>, and \<open>{success: false, error}\<close> with the thrown
  message exactly when \<open>validateEventPayload\<close> throws an \<open>Error\<close> with that message; the
  fallback text of the \<open>catch\<close> is never used, since nothing else is thrown.
\<close>

theorem safeValidate_mirrors_validate:
  "(safeValidateEventPayload L et p = ValidationResult d) = (validateEventPayload L et p = Inr d)
   \<and> (safeValidateEventPayload L et p = ValidationError m)
       = (validateEventPayload L et p = Inl (ErrorObj m))"
  using validate_throws_Error [of L et p]
  by (auto simp: safeValidateEventPayload_def split: sum.splits thrown.splits)

lemma nonEmptyString_defined: "nonEmptyString v \<Longrightarrow> v \<noteq> JUndefined"
  by (auto simp: nonEmptyString_def)

lemma string_accepted_nonempty:
  "z_string L [min_length n m] p v = Valid w \<Longrightarrow> 0 < n \<Longrightarrow> nonEmptyString v"
  by (cases v) (auto simp: z_string_def min_length_def nonEmptyString_def Let_def split: if_splits)

lemma quadrant_accepted:
  "z_nullable (z_optional (z_string L [])) p v = Valid w \<Longrightarrow> optionalNullableString v"
  by (cases v) (auto simp: z_nullable_def z_optional_def z_string_def optionalNullableString_def
      split: if_splits)

lemma accepted_other_fields:
  assumes "validateEventPayload L et (JObj fs) = Inr d" and "monetaryField et \<noteq> None"
  shows "otherFieldsValid et fs"
proof -
  from schema_of_entity [OF assms(1)] obtain schema where
    sc: "eventDataSchemaMap L et = Some schema" and r: "schema [] (JObj fs) = Valid d"
    by blast
  note f = parseShape_valid_field [where p = "[]" and fs = fs]
  show ?thesis
  proof (cases et)
    case ASSET
    with sc r have "fst (parseShape [(''name'', z_string L [min_length 1 ''Asset name is required'']),
       (''value'', monetaryValueSchema L)] [] fs) = valid"
      by (auto simp: AssetEventDataSchema_def dest!: z_object_result)
    from f [OF this, of "''name''" "z_string L [min_length 1 ''Asset name is required'']"] ASSET
    show ?thesis by (auto dest: string_accepted_nonempty)
  next
    case LIABILITY
    with sc r have "fst (parseShape [(''name'', z_string L [min_length 1 ''Liability name is required'']),
       (''value'', monetaryValueSchema L)] [] fs) = valid"
      by (auto simp: LiabilityEventDataSchema_def dest!: z_object_result)
    from f [OF this, of "''name''" "z_string L [min_length 1 ''Liability name is required'']"] LIABILITY
    show ?thesis by (auto dest: string_accepted_nonempty)
  next
    case EXPENSE
    with sc r have "fst (parseShape [(''name'', z_string L [min_length 1 ''Expense name is required'']),
       (''amount'', monetaryValueSchema L)] [] fs) = valid"
      by (auto simp: ExpenseEventDataSchema_def dest!: z_object_result)
    from f [OF this, of "''name''" "z_string L [min_length 1 ''Expense name is required'']"] EXPENSE
    show ?thesis by (auto dest: string_accepted_nonempty)
  next
    case INCOME
    with sc r have ok: "fst (parseShape [(''name'', z_string L [min_length 1 ''Income name is required'']),
       (''amount'', monetaryValueSchema L),
       (''type'', z_string L [min_length 1 ''Income type is required'']),
       (''quadrant'', z_nullable (z_optional (z_string L [])))] [] fs) = valid"
      by (auto simp: IncomeEventDataSchema_def dest!: z_object_result)
    from f [OF ok, of "''name''" "z_string L [min_length 1 ''Income name is required'']"]
    have n: "nonEmptyString (getProp fs ''name'')"
      by (auto dest: string_accepted_nonempty)
    from f [OF ok, of "''type''" "z_string L [min_length 1 ''Income type is required'']"]
    have t: "nonEmptyString (getProp fs ''type'')"
      by (auto dest: string_accepted_nonempty)
    from f [OF ok, of "''quadrant''" "z_nullable (z_optional (z_string L []))"]
    have q: "optionalNullableString (getProp fs ''quadrant'')"
      by (auto dest: quadrant_accepted)
    from n t q INCOME show ?thesis by simp
  next
    case CASH_SAVINGS
    then show ?thesis by simp
  next
    case USER
    with assms(2) show ?thesis by simp
  qed
qed

lemma object_accepted_if_others_valid:
  assumes "monetaryField et = Some k"
    and "getProp fs k = JObj ob"
    and "otherFieldsValid et fs"
  shows "\<exists>out. validateEventPayload L et (JObj fs) = Inr (JObj out) \<and> getProp out k = JObj ob"
proof (cases et)
  case ASSET
  with assms(1) have k: "k = ''value''" by simp
  from assms(2,3) ASSET show ?thesis unfolding k
    by (simp add: validateEventPayload_def AssetEventDataSchema_def z_object_def
          monetary_accepts_object string_accepts_nonempty nonEmptyString_defined)
       (simp add: getProp_def)
next
  case LIABILITY
  with assms(1) have k: "k = ''value''" by simp
  from assms(2,3) LIABILITY show ?thesis unfolding k
    by (simp add: validateEventPayload_def LiabilityEventDataSchema_def z_object_def
          monetary_accepts_object string_accepts_nonempty nonEmptyString_defined)
       (simp add: getProp_def)
next
  case EXPENSE
  with assms(1) have k: "k = ''amount''" by simp
  from assms(2,3) EXPENSE show ?thesis unfolding k
    by (simp add: validateEventPayload_def ExpenseEventDataSchema_def z_object_def
          monetary_accepts_object string_accepts_nonempty nonEmptyString_defined)
       (simp add: getProp_def)
next
  case INCOME
  with assms(1) have k: "k = ''amount''" by simp
  from assms(2,3) INCOME show ?thesis unfolding k
    by (simp add: validateEventPayload_def IncomeEventDataSchema_def z_object_def
          monetary_accepts_object string_accepts_nonempty quadrant_accepts nonEmptyString_defined)
       (simp add: getProp_def)
next
  case CASH_SAVINGS
  with assms(1) have k: "k = ''amount''" by simp
  from assms(2,3) CASH_SAVINGS show ?thesis unfolding k
    by (simp add: validateEventPayload_def CashSavingsEventDataSchema_def z_object_def
          monetary_accepts_object)
       (simp add: getProp_def)
next
  case USER
  with assms show ?thesis by simp
qed

text \<open>
  Claim C8. For every entity type with a monetary field, a payload whose monetary field is
  an object, whatever its contents, passes \<open>validateEventPayload\<close> exactly when its other
  fields are valid: the object is never a reason to reject, and it is returned as it is.
\<close>

theorem monetary_object_accepted:
  assumes "monetaryField et = Some k"
    and "getProp fs k = JObj ob"
  shows "(\<exists>out. validateEventPayload L et (JObj fs) = Inr (JObj out) \<and> getProp out k = JObj ob)
           = otherFieldsValid et fs"
proof
  assume "\<exists>out. validateEventPayload L et (JObj fs) = Inr (JObj out) \<and> getProp out k = JObj ob"
  with assms(1) show "otherFieldsValid et fs"
    by (auto dest: accepted_other_fields)
next
  assume "otherFieldsValid et fs"
  with assms show "\<exists>out. validateEventPayload L et (JObj fs) = Inr (JObj out) \<and> getProp out k = JObj ob"
    by (rule object_accepted_if_others_valid)
qed

text \<open>
  Claim C8 at the empty object: an ASSET whose value is \<open>{}\<close> is accepted.
\<close>

theorem monetary_object_accepted_witness:
  "monetaryField ASSET = Some ''value''
   \<and> getProp [(''name'', JStr ''House''), (''value'', JObj [])] ''value'' = JObj []
   \<and> otherFieldsValid ASSET [(''name'', JStr ''House''), (''value'', JObj [])]
   \<and> (\<exists>out. validateEventPayload zod_sample ASSET (JObj [(''name'', JStr ''House''), (''value'', JObj [])])
          = Inr (JObj out) \<and> getProp out ''value'' = JObj [])"
proof -
  have h1: "monetaryField ASSET = Some ''value''" by simp
  have h2: "getProp [(''name'', JStr ''House''), (''value'', JObj [])] ''value'' = JObj []"
    by (simp add: getProp_def)
  have h3: "otherFieldsValid ASSET [(''name'', JStr ''House''), (''value'', JObj [])]"
    by (simp add: getProp_def nonEmptyString_def)
  from monetary_object_accepted [OF h1 h2, of zod_sample] h1 h2 h3 show ?thesis
    by blast
qed

section \<open>Monetary columns after the migrations\<close>

lemma map_of_retype:
  "map_of (map (\<lambda>(c', ty'). if c' = c then (c', ty) else (c', ty')) cols) x
     = (if x = c then map_option (\<lambda>old. ty) (map_of cols c) else map_of cols x)"
  by (induction cols) auto

lemma map_of_retype_table:
  "map_of (map (\<lambda>(t', cols'). if t' = t then (t', f cols') else (t', cols')) S) x
     = (if x = t then map_option f (map_of S t) else map_of S x)"
  by (induction S) auto

lemma columnType_after_alter:
  assumes "run_ddl S (AlterColumnType t c ty) = Inr S'"
  shows "columnType S' t' c' = (if t' = t \<and> c' = c then Some ty else columnType S t' c')"
proof -
  from assms obtain cols where cols: "map_of S t = Some cols" and c: "map_of cols c \<noteq> None"
    and S': "S' = map (\<lambda>(t', cols').
                     if t' = t then (t', map (\<lambda>(c', ty'). if c' = c then (c', ty) else (c', ty')) cols')
                     else (t', cols')) S"
    by (auto split: option.splits if_splits)
  show ?thesis
    unfolding S' columnType_def
    using cols c
    by (auto simp: map_of_retype_table map_of_retype split: option.splits)
qed

lemma migrate_Cons_Inr:
  "migrate S (d # ds) = Inr S' \<Longrightarrow> \<exists>S1. run_ddl S d = Inr S1 \<and> migrate S1 ds = Inr S'"
  by (cases "run_ddl S d") auto

text \<open>
  Whatever the schema it runs on, a run of \<open>decimal_precision\<close> without error leaves the
  five columns as DECIMAL(15,2).
\<close>

lemma decimal_precision_on_any_schema:
  assumes "migrate S decimal_precision_migration = Inr S'"
  shows "columnType S' ''Asset'' ''value'' = Some (DECIMAL 15 2)
     \<and> columnType S' ''Liability'' ''value'' = Some (DECIMAL 15 2)
     \<and> columnType S' ''Expense'' ''amount'' = Some (DECIMAL 15 2)
     \<and> columnType S' ''IncomeLine'' ''amount'' = Some (DECIMAL 15 2)
     \<and> columnType S' ''CashSavings'' ''amount'' = Some (DECIMAL 15 2)"
proof -
  from assms obtain S1 S2 S3 S4 where
    s1: "run_ddl S (AlterColumnType ''Asset'' ''value'' (DECIMAL 15 2)) = Inr S1" and
    s2: "run_ddl S1 (AlterColumnType ''CashSavings'' ''amount'' (DECIMAL 15 2)) = Inr S2" and
    s3: "run_ddl S2 (AlterColumnType ''Expense'' ''amount'' (DECIMAL 15 2)) = Inr S3" and
    s4: "run_ddl S3 (AlterColumnType ''IncomeLine'' ''amount'' (DECIMAL 15 2)) = Inr S4" and
    s5: "run_ddl S4 (AlterColumnType ''Liability'' ''value'' (DECIMAL 15 2)) = Inr S'"
    unfolding decimal_precision_migration_def
    by (fastforce dest!: migrate_Cons_Inr)
  show ?thesis
    by (simp add: columnType_after_alter [OF s5] columnType_after_alter [OF s4]
          columnType_after_alter [OF s3] columnType_after_alter [OF s2]
          columnType_after_alter [OF s1])
qed

text \<open>
  Claim C6. The two migrations run without error from the empty schema, and in the
  schema they leave, Asset.value, Liability.value, Expense.amount, IncomeLine.amount and
  CashSavings.amount are DECIMAL(15,2); no column of any table is DOUBLE PRECISION.
\<close>

theorem monetary_columns_decimal:
  "\<exists>S. migrate [] (init_migration @ decimal_precision_migration) = Inr S
     \<and> columnType S ''Asset'' ''value'' = Some (DECIMAL 15 2)
     \<and> columnType S ''Liability'' ''value'' = Some (DECIMAL 15 2)
     \<and> columnType S ''Expense'' ''amount'' = Some (DECIMAL 15 2)
     \<and> columnType S ''IncomeLine'' ''amount'' = Some (DECIMAL 15 2)
     \<and> columnType S ''CashSavings'' ''amount'' = Some (DECIMAL 15 2)
     \<and> columnsOfType S DOUBLE_PRECISION = []"
  by (simp add: init_migration_def decimal_precision_migration_def columnType_def columnsOfType_def)

text \<open>Before \<open>decimal_precision\<close>, those five columns were the floating-point ones.\<close>

lemma columns_before:
  "\<exists>S. migrate [] init_migration = Inr S
     \<and> columnsOfType S DOUBLE_PRECISION =
         [(''Expense'', ''amount''), (''Asset'', ''value''), (''Liability'', ''value''),
          (''IncomeLine'', ''amount''), (''CashSavings'', ''amount'')]"
  by (simp add: init_migration_def columnsOfType_def)

section \<open>Net worth\<close>

lemma numberToString_zero: "numberToString otherDigits (Fin 0) = ''0''"
  by (simp add: numberToString_def showNat.simps)

lemma totalAssets_string_balance:
  "totalAssets otherDigits string_balance = StringValue ''0100200''"
  by (simp add: totalAssets_def string_balance_def js_plus_def toStr_def orZero_def
        numberToString_zero)

lemma totalLiabilities_string_balance:
  "totalLiabilities otherDigits string_balance = StringValue ''050''"
  by (simp add: totalLiabilities_def string_balance_def js_plus_def toStr_def orZero_def
        numberToString_zero)



lemma stringToNumber_0100200: "stringToNumber ''0100200'' = Fin 100200"
  using roundDouble_of_int [of 100200]
  by (simp add: stringToNumber_def trim_def nonDecimalLiteral_def lowerHex_def readDecimal_def
        isWhiteSpace_def isDigit_def startsWith_def digitsVal_def digitVal_def digitIn_def pow10_def)

lemma stringToNumber_050: "stringToNumber ''050'' = Fin 50"
  using roundDouble_of_int [of 50]
  by (simp add: stringToNumber_def trim_def nonDecimalLiteral_def lowerHex_def readDecimal_def
        isWhiteSpace_def isDigit_def startsWith_def digitsVal_def digitVal_def digitIn_def pow10_def)

lemma stringToNumber_100: "stringToNumber ''100'' = Fin 100"
  using roundDouble_of_int [of 100]
  by (simp add: stringToNumber_def trim_def nonDecimalLiteral_def lowerHex_def readDecimal_def
        isWhiteSpace_def isDigit_def startsWith_def digitsVal_def digitVal_def digitIn_def pow10_def)

lemma stringToNumber_200: "stringToNumber ''200'' = Fin 200"
  using roundDouble_of_int [of 200]
  by (simp add: stringToNumber_def trim_def nonDecimalLiteral_def lowerHex_def readDecimal_def
        isWhiteSpace_def isDigit_def startsWith_def digitsVal_def digitVal_def digitIn_def pow10_def)

lemma stringToNumber_50: "stringToNumber ''50'' = Fin 50"
  using roundDouble_of_int [of 50]
  by (simp add: stringToNumber_def trim_def nonDecimalLiteral_def lowerHex_def readDecimal_def
        isWhiteSpace_def isDigit_def startsWith_def digitsVal_def digitVal_def digitIn_def pow10_def)


lemma user_view_string_balance: "netWorth otherDigits string_balance = Fin 100150"
  using js_sub_whole [of 100200 50]
  by (simp add: netWorth_def totalAssets_string_balance totalLiabilities_string_balance
        toNumber_def stringToNumber_0100200 stringToNumber_050)

lemma admin_totalAssets_string_balance: "admin_totalAssets string_balance = Fin 300"
  using js_add_whole [of 0 100] js_add_whole [of 100 200]
  by (simp add: admin_totalAssets_def string_balance_def toNumber_def or0_def
        stringToNumber_100 stringToNumber_200)

lemma admin_totalLiabilities_string_balance: "admin_totalLiabilities string_balance = Fin 50"
  using js_add_whole [of 0 50]
  by (simp add: admin_totalLiabilities_def string_balance_def toNumber_def or0_def
        stringToNumber_50)

lemma admin_view_string_balance: "admin_netWorth string_balance = Fin 250"
  using js_sub_whole [of 300 50]
  by (simp add: admin_netWorth_def admin_totalAssets_string_balance
        admin_totalLiabilities_string_balance)

text \<open>
  Claim C7 takes the net worth to be the sum of the asset values minus the sum of the
  liability values. UserFinancialView adds the values of the response as they come, and
  the API sends monetary values as strings: on two assets \<open>'100'\<close> and \<open>'200'\<close> and one
  liability \<open>'50'\<close> the reduce from 0 builds the strings \<open>'0100200'\<close> and \<open>'050'\<close>, and their
  difference is 100150, not 250. AdminUserFinancialView, which converts every value with
  \<open>Number(...)\<close>, gives 250 on the same response.
\<close>

theorem netWorth_concatenates_strings:
  "netWorth otherDigits string_balance = Fin 100150 \<and> admin_netWorth string_balance = Fin 250"
  by (simp add: user_view_string_balance admin_view_string_balance)

text \<open>
  On the spec's scenario, sent as numbers, both components give 50000.
\<close>

lemma house_mortgage_netWorth:
  "netWorth otherDigits house_mortgage = Fin 50000 \<and> admin_netWorth house_mortgage = Fin 50000"
proof -
  have a: "totalAssets otherDigits house_mortgage = NumberValue (Fin 300000)"
    using js_add_whole [of 0 300000]
    by (simp add: totalAssets_def house_mortgage_def js_plus_def orZero_def or0_def)
  have l: "totalLiabilities otherDigits house_mortgage = NumberValue (Fin 250000)"
    using js_add_whole [of 0 250000]
    by (simp add: totalLiabilities_def house_mortgage_def js_plus_def orZero_def or0_def)
  have aa: "admin_totalAssets house_mortgage = Fin 300000"
    using js_add_whole [of 0 300000]
    by (simp add: admin_totalAssets_def house_mortgage_def toNumber_def or0_def)
  have al: "admin_totalLiabilities house_mortgage = Fin 250000"
    using js_add_whole [of 0 250000]
    by (simp add: admin_totalLiabilities_def house_mortgage_def toNumber_def or0_def)
  from js_sub_whole [of 300000 250000] a l aa al show ?thesis
    by (simp add: netWorth_def admin_netWorth_def toNumber_def)
qed

section \<open>The guards of the trajectory handler\<close>

lemma handler_unauthenticated:
  "truthyNumber (req_userId req) = None
    \<Longrightarrow> getFinancialTrajectoryHandler svc req
        = (\<lparr>status = 401, json = ErrorBody ''Authentication required''\<rparr>, [])"
  by (simp add: getFinancialTrajectoryHandler_def)

lemma handler_missing_dates:
  "truthyNumber (req_userId req) = Some u
    \<Longrightarrow> truthyString (startDate req) = None \<or> truthyString (endDate req) = None
    \<Longrightarrow> getFinancialTrajectoryHandler svc req
        = (\<lparr>status = 400, json = ErrorBody ''startDate and endDate are required''\<rparr>, [])"
  by (auto simp: getFinancialTrajectoryHandler_def Let_def split: option.splits)

lemma handler_calls_service:
  "truthyNumber (req_userId req) = Some u \<Longrightarrow> truthyString (startDate req) = Some sd
    \<Longrightarrow> truthyString (endDate req) = Some ed
    \<Longrightarrow> snd (getFinancialTrajectoryHandler svc req) = [(u, sd, ed, orElse (interval req) ''monthly'')]"
  by (auto simp: getFinancialTrajectoryHandler_def Let_def split: option.splits sum.splits)

text \<open>
  Claim C9. A request with no authenticated user id is answered 401 and the service is
  not called. An authenticated request that lacks \<open>startDate\<close> or \<open>endDate\<close> is answered
  400 with \<open>startDate and endDate are required\<close> and the service is not called. An
  authenticated request with both dates and no \<open>interval\<close> calls the service once, with
  the interval \<open>monthly\<close>.
\<close>

theorem trajectory_handler_guards:
  "(req_userId req = None
      \<longrightarrow> getFinancialTrajectoryHandler svc req
           = (\<lparr>status = 401, json = ErrorBody ''Authentication required''\<rparr>, []))
   \<and> (truthyNumber (req_userId req) \<noteq> None \<and> (startDate req = None \<or> endDate req = None)
      \<longrightarrow> getFinancialTrajectoryHandler svc req
           = (\<lparr>status = 400, json = ErrorBody ''startDate and endDate are required''\<rparr>, []))
   \<and> (truthyNumber (req_userId req) = Some u \<and> truthyString (startDate req) = Some sd
        \<and> truthyString (endDate req) = Some ed \<and> interval req = None
      \<longrightarrow> snd (getFinancialTrajectoryHandler svc req) = [(u, sd, ed, ''monthly'')])"
proof (intro conjI impI)
  assume "req_userId req = None"
  then show "getFinancialTrajectoryHandler svc req
           = (\<lparr>status = 401, json = ErrorBody ''Authentication required''\<rparr>, [])"
    by (simp add: handler_unauthenticated truthyNumber_def)
next
  assume a: "truthyNumber (req_userId req) \<noteq> None \<and> (startDate req = None \<or> endDate req = None)"
  then obtain u' where "truthyNumber (req_userId req) = Some u'" by auto
  moreover from a have "truthyString (startDate req) = None \<or> truthyString (endDate req) = None"
    by (auto simp: truthyString_def)
  ultimately show "getFinancialTrajectoryHandler svc req
           = (\<lparr>status = 400, json = ErrorBody ''startDate and endDate are required''\<rparr>, [])"
    by (rule handler_missing_dates)
next
  assume a: "truthyNumber (req_userId req) = Some u \<and> truthyString (startDate req) = Some sd
        \<and> truthyString (endDate req) = Some ed \<and> interval req = None"
  then have "snd (getFinancialTrajectoryHandler svc req) = [(u, sd, ed, orElse (interval req) ''monthly'')]"
    by (intro handler_calls_service) auto
  with a show "snd (getFinancialTrajectoryHandler svc req) = [(u, sd, ed, ''monthly'')]"
    by (simp add: orElse_def truthyString_def)
qed

text \<open>
  Claim C9 on three requests: one without a user, one without an end date, one without an
  interval.
\<close>

theorem trajectory_handler_guards_witness:
  "getFinancialTrajectoryHandler sample_service no_user_request
      = (\<lparr>status = 401, json = ErrorBody ''Authentication required''\<rparr>, [])
   \<and> getFinancialTrajectoryHandler sample_service no_end_request
      = (\<lparr>status = 400, json = ErrorBody ''startDate and endDate are required''\<rparr>, [])
   \<and> getFinancialTrajectoryHandler sample_service no_interval_request
      = (\<lparr>status = 200, json = Payload [1, 2, 3]\<rparr>, [(7, ''2025-01-01'', ''2025-12-31'', ''monthly'')])"
proof -
  have h1: "req_userId no_user_request = None" by (simp add: no_user_request_def)
  have h2: "truthyNumber (req_userId no_end_request) \<noteq> None
      \<and> (startDate no_end_request = None \<or> endDate no_end_request = None)"
    by (simp add: no_end_request_def truthyNumber_def)
  have h3: "truthyNumber (req_userId no_interval_request) = Some 7
      \<and> truthyString (startDate no_interval_request) = Some ''2025-01-01''
      \<and> truthyString (endDate no_interval_request) = Some ''2025-12-31''
      \<and> interval no_interval_request = None"
    by (simp add: no_interval_request_def truthyNumber_def truthyString_def)
  have c: "fst (getFinancialTrajectoryHandler sample_service no_interval_request)
      = \<lparr>status = 200, json = Payload [1, 2, 3]\<rparr>"
    by (simp add: getFinancialTrajectoryHandler_def no_interval_request_def truthyNumber_def
          truthyString_def orElse_def sample_service_def)
  note f1 = trajectory_handler_guards [where req = no_user_request and svc = sample_service,
      THEN conjunct1, THEN mp, OF h1]
  note f2 = trajectory_handler_guards [where req = no_end_request and svc = sample_service,
      THEN conjunct2, THEN conjunct1, THEN mp, OF h2]
  note f3 = trajectory_handler_guards [where req = no_interval_request and svc = sample_service
      and u = 7 and sd = "''2025-01-01''" and ed = "''2025-12-31''",
      THEN conjunct2, THEN conjunct2, THEN mp, OF h3]
  from c f3 have f4: "getFinancialTrajectoryHandler sample_service no_interval_request
      = (\<lparr>status = 200, json = Payload [1, 2, 3]\<rparr>, [(7, ''2025-01-01'', ''2025-12-31'', ''monthly'')])"
    by (simp add: prod_eq_iff)
  from f1 f2 f4 show ?thesis by (intro conjI)
qed

section \<open>Income totals\<close>

lemma isInteger_whole: "isInteger x \<Longrightarrow> \<exists>z. x = Fin (of_int z)"
  by (cases x) (auto intro: sym)

lemma abs_sum_nonneg: "0 \<le> (\<Sum>i\<leftarrow>xs. \<bar>finVal (item_amount i)\<bar>)"
  by (induction xs) auto

lemma fold_whole:
  "\<forall>i \<in> set xs. isInteger (item_amount i) \<Longrightarrow>
   \<bar>of_int a\<bar> + (\<Sum>i\<leftarrow>xs. \<bar>finVal (item_amount i)\<bar>) \<le> 9007199254740992 \<Longrightarrow>
   foldl (\<lambda>sum i. js_add sum (item_amount i)) (Fin (of_int a)) xs
     = Fin (of_int a + (\<Sum>i\<leftarrow>xs. finVal (item_amount i)))"
proof (induction xs arbitrary: a)
  case Nil
  then show ?case by simp
next
  case (Cons x xs)
  from Cons.prems(1) obtain z where z: "item_amount x = Fin (of_int z)"
    using isInteger_whole [of "item_amount x"] by auto
  have nn: "0 \<le> (\<Sum>i\<leftarrow>xs. \<bar>finVal (item_amount i)\<bar>)"
    by (rule abs_sum_nonneg)
  from Cons.prems(2) z have b: "\<bar>rat_of_int a\<bar> + \<bar>rat_of_int z\<bar> + (\<Sum>i\<leftarrow>xs. \<bar>finVal (item_amount i)\<bar>) \<le> 9007199254740992"
    by simp
  with nn have "\<bar>rat_of_int a\<bar> + \<bar>rat_of_int z\<bar> \<le> 9007199254740992" by linarith
  then have "rat_of_int (\<bar>a\<bar> + \<bar>z\<bar>) \<le> rat_of_int 9007199254740992" by simp
  then have "\<bar>a\<bar> + \<bar>z\<bar> \<le> 9007199254740992" by (simp only: of_int_le_iff)
  then have s: "\<bar>a + z\<bar> \<le> 9007199254740992" by linarith
  have t: "\<bar>rat_of_int (a + z)\<bar> \<le> \<bar>rat_of_int a\<bar> + \<bar>rat_of_int z\<bar>" by simp
  from b t have b': "\<bar>rat_of_int (a + z)\<bar> + (\<Sum>i\<leftarrow>xs. \<bar>finVal (item_amount i)\<bar>) \<le> 9007199254740992"
    by linarith
  from Cons.prems(1) have all: "\<forall>i \<in> set xs. isInteger (item_amount i)" by simp
  from Cons.IH [OF all b'] js_add_whole [OF s] z show ?case by simp
qed

lemma filter_abs_le:
  "(\<Sum>i\<leftarrow>filter P xs. \<bar>finVal (item_amount i)\<bar>) \<le> (\<Sum>i\<leftarrow>xs. \<bar>finVal (item_amount i)\<bar>)"
  by (induction xs) auto

lemma abs_sum_le:
  "\<bar>\<Sum>i\<leftarrow>xs. finVal (item_amount i)\<bar> \<le> (\<Sum>i\<leftarrow>xs. \<bar>finVal (item_amount i)\<bar>)"
  by (induction xs) auto

lemma whole_sum:
  "\<forall>i \<in> set xs. isInteger (item_amount i) \<Longrightarrow> \<exists>z. (\<Sum>i\<leftarrow>xs. finVal (item_amount i)) = of_int z"
proof (induction xs)
  case Nil
  show ?case by (simp add: exI [of _ 0])
next
  case (Cons x xs)
  then obtain z where z: "(\<Sum>i\<leftarrow>xs. finVal (item_amount i)) = of_int z" by auto
  from Cons.prems obtain y where y: "item_amount x = Fin (of_int y)"
    using isInteger_whole [of "item_amount x"] by auto
  from z y have "(\<Sum>i\<leftarrow>x # xs. finVal (item_amount i)) = of_int (y + z)" by simp
  then show ?case by blast
qed

lemma bucket_whole:
  assumes "\<forall>i \<in> set xs. isInteger (item_amount i)"
    and "(\<Sum>i\<leftarrow>xs. \<bar>finVal (item_amount i)\<bar>) \<le> 9007199254740992"
  shows "foldl (\<lambda>sum i. js_add sum (item_amount i)) (Fin 0) (filter P xs)
           = Fin (\<Sum>i\<leftarrow>filter P xs. finVal (item_amount i))"
proof -
  from assms(1) have a: "\<forall>i \<in> set (filter P xs). isInteger (item_amount i)" by simp
  from assms(2) filter_abs_le [of P xs]
  have b: "\<bar>rat_of_int 0\<bar> + (\<Sum>i\<leftarrow>filter P xs. \<bar>finVal (item_amount i)\<bar>) \<le> 9007199254740992"
    by simp
  from fold_whole [OF a b] show ?thesis by simp
qed

lemma partition_sum_list:
  "(\<Sum>i\<leftarrow>filter (\<lambda>i. item_type i = Earned) xs. finVal (item_amount i))
   + (\<Sum>i\<leftarrow>filter (\<lambda>i. item_type i = Portfolio) xs. finVal (item_amount i))
   + (\<Sum>i\<leftarrow>filter (\<lambda>i. item_type i = Passive) xs. finVal (item_amount i))
   = (\<Sum>i\<leftarrow>xs. finVal (item_amount i))"
proof (induction xs)
  case Nil
  show ?case by simp
next
  case (Cons x xs)
  then show ?case by (cases "item_type x") simp_all
qed

lemma partition_abs_list:
  "(\<Sum>i\<leftarrow>filter (\<lambda>i. item_type i = Earned) xs. \<bar>finVal (item_amount i)\<bar>)
   + (\<Sum>i\<leftarrow>filter (\<lambda>i. item_type i = Portfolio) xs. \<bar>finVal (item_amount i)\<bar>)
   + (\<Sum>i\<leftarrow>filter (\<lambda>i. item_type i = Passive) xs. \<bar>finVal (item_amount i)\<bar>)
   = (\<Sum>i\<leftarrow>xs. \<bar>finVal (item_amount i)\<bar>)"
proof (induction xs)
  case Nil
  show ?case by simp
next
  case (Cons x xs)
  then show ?case by (cases "item_type x") simp_all
qed

lemma partition_mset:
  "mset (filter (\<lambda>i. item_type i = Earned) xs) + mset (filter (\<lambda>i. item_type i = Portfolio) xs)
     + mset (filter (\<lambda>i. item_type i = Passive) xs) = mset xs"
proof (induction xs)
  case Nil
  then show ?case by simp
next
  case (Cons x xs)
  then show ?case by (cases "item_type x") simp_all
qed

lemma js_add_whole_rat:
  assumes "x = of_int a" and "y = of_int b" and "\<bar>x\<bar> + \<bar>y\<bar> \<le> 9007199254740992"
  shows "js_add (Fin x) (Fin y) = Fin (x + y)"
proof -
  from assms have "rat_of_int (\<bar>a\<bar> + \<bar>b\<bar>) \<le> rat_of_int 9007199254740992" by simp
  then have "\<bar>a\<bar> + \<bar>b\<bar> \<le> 9007199254740992" by (simp only: of_int_le_iff)
  then have "\<bar>a + b\<bar> \<le> 9007199254740992" by linarith
  from js_add_whole [OF this] assms(1,2) show ?thesis by simp
qed

lemma totals_whole:
  fixes xs :: "IncomeItem list"
  defines "E \<equiv> filter (\<lambda>i. item_type i = Earned) xs"
    and "Po \<equiv> filter (\<lambda>i. item_type i = Portfolio) xs"
    and "Pa \<equiv> filter (\<lambda>i. item_type i = Passive) xs"
  defines "S \<equiv> \<lambda>ys. foldl (\<lambda>sum i. js_add sum (item_amount i)) (Fin 0) ys"
  assumes w: "\<forall>i \<in> set xs. isInteger (item_amount i)"
    and b: "(\<Sum>i\<leftarrow>xs. \<bar>finVal (item_amount i)\<bar>) \<le> 9007199254740992"
  shows "js_add (js_add (S E) (S Po)) (S Pa) = Fin (\<Sum>i\<leftarrow>xs. finVal (item_amount i))"
    and "js_add (S Pa) (S Po) = Fin ((\<Sum>i\<leftarrow>Pa. finVal (item_amount i)) + (\<Sum>i\<leftarrow>Po. finVal (item_amount i)))"
    and "S xs = Fin (\<Sum>i\<leftarrow>xs. finVal (item_amount i))"
proof -
  let ?v = "\<lambda>ys. \<Sum>i\<leftarrow>ys. finVal (item_amount i)"
  let ?m = "\<lambda>ys. \<Sum>i\<leftarrow>ys. \<bar>finVal (item_amount i)\<bar>"
  have se: "S E = Fin (?v E)" and sp: "S Po = Fin (?v Po)" and sa: "S Pa = Fin (?v Pa)"
    unfolding S_def E_def Po_def Pa_def using bucket_whole [OF w b] by blast+
  from w obtain ze where ze: "?v E = of_int ze" unfolding E_def
    using whole_sum [of "filter (\<lambda>i. item_type i = Earned) xs"] by auto
  from w obtain zp where zp: "?v Po = of_int zp" unfolding Po_def
    using whole_sum [of "filter (\<lambda>i. item_type i = Portfolio) xs"] by auto
  from w obtain za where za: "?v Pa = of_int za" unfolding Pa_def
    using whole_sum [of "filter (\<lambda>i. item_type i = Passive) xs"] by auto
  have m: "?m E + ?m Po + ?m Pa = ?m xs"
    unfolding E_def Po_def Pa_def by (rule partition_abs_list)
  have ae: "\<bar>?v E\<bar> \<le> ?m E" and ap: "\<bar>?v Po\<bar> \<le> ?m Po" and aa: "\<bar>?v Pa\<bar> \<le> ?m Pa"
    by (rule abs_sum_le)+
  have ne: "0 \<le> ?m E" and np: "0 \<le> ?m Po" and na: "0 \<le> ?m Pa"
    by (rule abs_sum_nonneg)+
  from m b ae ap na have b1: "\<bar>?v E\<bar> + \<bar>?v Po\<bar> \<le> 9007199254740992" by linarith
  have s1: "js_add (S E) (S Po) = Fin (?v E + ?v Po)"
    unfolding se sp by (rule js_add_whole_rat [OF ze zp b1])
  have zep: "?v E + ?v Po = of_int (ze + zp)" using ze zp by simp
  from m b ae ap aa have b2: "\<bar>?v E + ?v Po\<bar> + \<bar>?v Pa\<bar> \<le> 9007199254740992" by linarith
  have s2: "js_add (Fin (?v E + ?v Po)) (S Pa) = Fin (?v E + ?v Po + ?v Pa)"
    unfolding sa by (rule js_add_whole_rat [OF zep za b2])
  have v: "?v E + ?v Po + ?v Pa = ?v xs"
    unfolding E_def Po_def Pa_def by (rule partition_sum_list)
  from s1 s2 v show "js_add (js_add (S E) (S Po)) (S Pa) = Fin (?v xs)" by simp
  from m b ap aa ne have b3: "\<bar>?v Pa\<bar> + \<bar>?v Po\<bar> \<le> 9007199254740992" by linarith
  show "js_add (S Pa) (S Po) = Fin (?v Pa + ?v Po)"
    unfolding sa sp by (rule js_add_whole_rat [OF za zp b3])
  from b have b0: "\<bar>rat_of_int 0\<bar> + ?m xs \<le> 9007199254740992" by simp
  from fold_whole [OF w b0] show "S xs = Fin (?v xs)" by (simp add: S_def)
qed

lemma normalized_all:
  "all_items (normalizeIncomeData toUpperCase (Some items)) = map (normalizeIncomeItem toUpperCase) items"
  by (simp add: normalizeIncomeData_def Let_def)

lemma unknown_type_earned:
  assumes "item \<in> set items"
    and "map_option toUpperCase (raw_type item) \<notin> {Some ''EARNED'', Some ''PORTFOLIO'', Some ''PASSIVE''}"
  shows "normalizeIncomeItem toUpperCase item
           \<in> set (earned_items (normalizeIncomeData toUpperCase (Some items)))"
proof -
  from assms(2) have "parseIncomeType toUpperCase (raw_type item) = Earned"
    by (simp add: parseIncomeType_def Let_def)
  then have "item_type (normalizeIncomeItem toUpperCase item) = Earned"
    by (simp add: normalizeIncomeItem_def Let_def)
  with assms(1) show ?thesis
    by (simp add: normalizeIncomeData_def Let_def)
qed

text \<open>
  Claim C10, amended. For every list of items of the response: \<open>all\<close> is the list of the
  normalized items, in order; the three buckets hold every normalized item exactly once;
  an item whose type, in upper case, is none of the three names is in the earned bucket;
  \<open>total\<close> is the sum of the three bucket sums, each added up from 0 in list order, every
  addition rounded; and \<open>passiveAndPortfolio\<close> is the passive total plus the portfolio
  total. When every amount is a whole number and the absolute amounts add up to at most
  \<open>2 ^ 53\<close>, no addition rounds: \<open>total\<close> is then the sum of the amounts of all items, which
  is also what adding them in list order gives, and \<open>passiveAndPortfolio\<close> is the sum of
  the passive and the portfolio amounts.
\<close>

theorem income_totals_whole_amounts:
  "let income = normalizeIncomeData toUpperCase (Some items);
       totals = calculateIncomeTotals income;
       al = map (normalizeIncomeItem toUpperCase) items;
       S = foldl (\<lambda>sum (i::IncomeItem). js_add sum (item_amount i)) (Fin 0)
   in all_items income = al
    \<and> mset (earned_items income) + mset (portfolio_items income) + mset (passive_items income) = mset al
    \<and> (\<forall>item \<in> set items.
          map_option toUpperCase (raw_type item) \<notin> {Some ''EARNED'', Some ''PORTFOLIO'', Some ''PASSIVE''}
          \<longrightarrow> normalizeIncomeItem toUpperCase item \<in> set (earned_items income))
    \<and> total totals = js_add (js_add (S (filter (\<lambda>i. item_type i = Earned) al))
                                       (S (filter (\<lambda>i. item_type i = Portfolio) al)))
                               (S (filter (\<lambda>i. item_type i = Passive) al))
    \<and> passiveAndPortfolio totals = js_add (passive_total totals) (portfolio_total totals)
    \<and> ((\<forall>i \<in> set al. isInteger (item_amount i))
         \<and> (\<Sum>i\<leftarrow>al. \<bar>finVal (item_amount i)\<bar>) \<le> 9007199254740992
        \<longrightarrow> total totals = Fin (\<Sum>i\<leftarrow>al. finVal (item_amount i))
          \<and> total totals = S al
          \<and> passiveAndPortfolio totals
              = Fin ((\<Sum>i\<leftarrow>passive_items income. finVal (item_amount i))
                     + (\<Sum>i\<leftarrow>portfolio_items income. finVal (item_amount i))))"
proof -
  define al where "al = map (normalizeIncomeItem toUpperCase) items"
  define S where "S = foldl (\<lambda>sum (i::IncomeItem). js_add sum (item_amount i)) (Fin 0)"
  define income where "income = normalizeIncomeData toUpperCase (Some items)"
  define totals where "totals = calculateIncomeTotals income"
  have n: "income =
      \<lparr>earned_items = filter (\<lambda>i. item_type i = Earned) al,
       portfolio_items = filter (\<lambda>i. item_type i = Portfolio) al,
       passive_items = filter (\<lambda>i. item_type i = Passive) al,
       all_items = al\<rparr>"
    by (simp add: income_def normalizeIncomeData_def al_def Let_def)
  have t: "total totals = js_add (js_add (S (filter (\<lambda>i. item_type i = Earned) al))
                                       (S (filter (\<lambda>i. item_type i = Portfolio) al)))
                               (S (filter (\<lambda>i. item_type i = Passive) al))"
    and pp: "passiveAndPortfolio totals = js_add (S (filter (\<lambda>i. item_type i = Passive) al))
                                                  (S (filter (\<lambda>i. item_type i = Portfolio) al))"
    and pt: "passive_total totals = S (filter (\<lambda>i. item_type i = Passive) al)"
    and po: "portfolio_total totals = S (filter (\<lambda>i. item_type i = Portfolio) al)"
    by (simp_all add: totals_def n calculateIncomeTotals_def S_def Let_def)
  have c1: "all_items income = al" by (simp add: n)
  have c2: "mset (earned_items income) + mset (portfolio_items income) + mset (passive_items income) = mset al"
    unfolding n using partition_mset [of al] by simp
  have c3: "\<forall>item \<in> set items.
          map_option toUpperCase (raw_type item) \<notin> {Some ''EARNED'', Some ''PORTFOLIO'', Some ''PASSIVE''}
          \<longrightarrow> normalizeIncomeItem toUpperCase item \<in> set (earned_items income)"
    unfolding income_def using unknown_type_earned [of _ items toUpperCase] by blast
  have c5: "passiveAndPortfolio totals = js_add (passive_total totals) (portfolio_total totals)"
    by (simp add: pp pt po)
  have c6: "(\<forall>i \<in> set al. isInteger (item_amount i))
         \<and> (\<Sum>i\<leftarrow>al. \<bar>finVal (item_amount i)\<bar>) \<le> 9007199254740992
        \<longrightarrow> total totals = Fin (\<Sum>i\<leftarrow>al. finVal (item_amount i))
          \<and> total totals = S al
          \<and> passiveAndPortfolio totals
              = Fin ((\<Sum>i\<leftarrow>passive_items income. finVal (item_amount i))
                     + (\<Sum>i\<leftarrow>portfolio_items income. finVal (item_amount i)))"
  proof
    assume h: "(\<forall>i \<in> set al. isInteger (item_amount i))
         \<and> (\<Sum>i\<leftarrow>al. \<bar>finVal (item_amount i)\<bar>) \<le> 9007199254740992"
    then have w: "\<forall>i \<in> set al. isInteger (item_amount i)"
      and b: "(\<Sum>i\<leftarrow>al. \<bar>finVal (item_amount i)\<bar>) \<le> 9007199254740992"
      by blast+
    from totals_whole [OF w b]
    show "total totals = Fin (\<Sum>i\<leftarrow>al. finVal (item_amount i))
          \<and> total totals = S al
          \<and> passiveAndPortfolio totals
              = Fin ((\<Sum>i\<leftarrow>passive_items income. finVal (item_amount i))
                     + (\<Sum>i\<leftarrow>portfolio_items income. finVal (item_amount i)))"
      by (simp add: t pp S_def n)
  qed
  from c1 c2 c3 t c5 c6 show ?thesis
    unfolding Let_def al_def [symmetric] S_def [symmetric] income_def [symmetric] totals_def [symmetric]
    by blast
qed

lemma upper_earned: "asciiUpperCase ''Earned'' = ''EARNED''"
  by (simp add: asciiUpperCase_def)

lemma upper_portfolio: "asciiUpperCase ''portfolio'' = ''PORTFOLIO''"
  by (simp add: asciiUpperCase_def)

lemma upper_Portfolio: "asciiUpperCase ''Portfolio'' = ''PORTFOLIO''"
  by (simp add: asciiUpperCase_def)

lemma upper_passive: "asciiUpperCase ''PASSIVE'' = ''PASSIVE''"
  by (simp add: asciiUpperCase_def)

lemma upper_bonus: "asciiUpperCase ''Bonus'' = ''BONUS''"
  by (simp add: asciiUpperCase_def)

lemma upper_employee: "asciiUpperCase (trim ''employee'') = ''EMPLOYEE''"
  by (simp add: asciiUpperCase_def trim_def isWhiteSpace_def)

lemma income_lines_normalized:
  "map (normalizeIncomeItem asciiUpperCase) income_lines =
    [\<lparr>item_id = 1, item_name = ''Salary'', item_amount = Fin 5000, item_type = Earned, item_quadrant = EMPLOYEE\<rparr>,
     \<lparr>item_id = 2, item_name = ''Dividends'', item_amount = Fin 1200, item_type = Portfolio, item_quadrant = INVESTOR\<rparr>,
     \<lparr>item_id = 3, item_name = ''Rent'', item_amount = Fin 800, item_type = Passive, item_quadrant = BUSINESS_OWNER\<rparr>,
     \<lparr>item_id = 4, item_name = ''Gift'', item_amount = Fin 100, item_type = Earned, item_quadrant = EMPLOYEE\<rparr>]"
  by (simp add: income_lines_def normalizeIncomeItem_def parseIncomeType_def normalizeQuadrant_def
        upper_earned upper_portfolio upper_passive upper_bonus upper_employee)

text \<open>
  The amended claim on a response of four items of whole amounts, the fourth of the
  unknown type \<open>Bonus\<close>: that item is in the earned bucket, the total is 7100 and the
  passive and portfolio incomes add up to 2000.
\<close>

theorem income_totals_whole_amounts_witness:
  "list_all (\<lambda>i. isInteger (item_amount i)) (map (normalizeIncomeItem asciiUpperCase) income_lines)
   \<and> (\<Sum>i\<leftarrow>map (normalizeIncomeItem asciiUpperCase) income_lines. \<bar>finVal (item_amount i)\<bar>)
        \<le> 9007199254740992
   \<and> income_lines ! 3 \<in> set income_lines
   \<and> map_option asciiUpperCase (raw_type (income_lines ! 3))
        \<notin> {Some ''EARNED'', Some ''PORTFOLIO'', Some ''PASSIVE''}
   \<and> normalizeIncomeItem asciiUpperCase (income_lines ! 3)
        \<in> set (earned_items (normalizeIncomeData asciiUpperCase (Some income_lines)))
   \<and> total (calculateIncomeTotals (normalizeIncomeData asciiUpperCase (Some income_lines))) = Fin 7100
   \<and> passiveAndPortfolio (calculateIncomeTotals (normalizeIncomeData asciiUpperCase (Some income_lines)))
        = Fin 2000"
proof -
  let ?al = "map (normalizeIncomeItem asciiUpperCase) income_lines"
  let ?income = "normalizeIncomeData asciiUpperCase (Some income_lines)"
  have h1: "\<forall>i \<in> set ?al. isInteger (item_amount i)"
    unfolding income_lines_normalized by simp
  have h2: "(\<Sum>i\<leftarrow>?al. \<bar>finVal (item_amount i)\<bar>) \<le> 9007199254740992"
    unfolding income_lines_normalized by simp
  have h3: "income_lines ! 3 \<in> set income_lines"
    by (simp add: income_lines_def)
  have h4: "map_option asciiUpperCase (raw_type (income_lines ! 3))
        \<notin> {Some ''EARNED'', Some ''PORTFOLIO'', Some ''PASSIVE''}"
    by (simp add: income_lines_def upper_bonus)
  have v: "(\<Sum>i\<leftarrow>?al. finVal (item_amount i)) = 7100"
    unfolding income_lines_normalized by simp
  have pa: "(\<Sum>i\<leftarrow>passive_items ?income. finVal (item_amount i)) = 800"
    and po: "(\<Sum>i\<leftarrow>portfolio_items ?income. finVal (item_amount i)) = 1200"
    by (simp_all add: normalizeIncomeData_def Let_def income_lines_normalized)
  note th = income_totals_whole_amounts [of asciiUpperCase income_lines, unfolded Let_def]
  from th h3 h4 have c: "normalizeIncomeItem asciiUpperCase (income_lines ! 3) \<in> set (earned_items ?income)"
    by blast
  from th h1 h2 have t: "total (calculateIncomeTotals ?income) = Fin (\<Sum>i\<leftarrow>?al. finVal (item_amount i))"
    and p: "passiveAndPortfolio (calculateIncomeTotals ?income)
              = Fin ((\<Sum>i\<leftarrow>passive_items ?income. finVal (item_amount i))
                     + (\<Sum>i\<leftarrow>portfolio_items ?income. finVal (item_amount i)))"
    by blast+
  from h1 have h0: "list_all (\<lambda>i. isInteger (item_amount i)) ?al"
    by (simp only: list_all_iff)
  from h0 h2 h3 h4 c t p v pa po show ?thesis by simp
qed

lemma tenth: "roundDouble (1 / 10) = Fin (3602879701896397 / 36028797018963968)"
  by code_simp

lemma eleven_tenths: "roundDouble (11 / 10) = Fin (2476979795053773 / 2251799813685248)"
  by code_simp

lemma tenth_lines_normalized:
  "map (normalizeIncomeItem asciiUpperCase) tenth_lines =
    [\<lparr>item_id = 1, item_name = ''Tips'', item_amount = Fin (3602879701896397 / 36028797018963968),
      item_type = Earned, item_quadrant = EMPLOYEE\<rparr>,
     \<lparr>item_id = 2, item_name = ''Interest'', item_amount = Fin (3602879701896397 / 36028797018963968),
      item_type = Portfolio, item_quadrant = INVESTOR\<rparr>,
     \<lparr>item_id = 3, item_name = ''Refund'', item_amount = Fin (2476979795053773 / 2251799813685248),
      item_type = Earned, item_quadrant = EMPLOYEE\<rparr>]"
  by (simp add: tenth_lines_def normalizeIncomeItem_def parseIncomeType_def normalizeQuadrant_def
        upper_earned upper_Portfolio tenth eleven_tenths)

lemma add_01_11:
  "js_add (Fin (3602879701896397 / 36028797018963968)) (Fin (2476979795053773 / 2251799813685248))
     = Fin (1351079888211149 / 1125899906842624)"
  by code_simp

lemma add_12_01:
  "js_add (Fin (1351079888211149 / 1125899906842624)) (Fin (3602879701896397 / 36028797018963968))
     = Fin (2927339757790823 / 2251799813685248)"
  by code_simp

lemma add_01_01:
  "js_add (Fin (3602879701896397 / 36028797018963968)) (Fin (3602879701896397 / 36028797018963968))
     = Fin (3602879701896397 / 18014398509481984)"
  by code_simp

lemma add_02_11:
  "js_add (Fin (3602879701896397 / 18014398509481984)) (Fin (2476979795053773 / 2251799813685248))
     = Fin (5854679515581645 / 4503599627370496)"
  by code_simp

lemma add_0_x: "js_add (Fin 0) (Fin (3602879701896397 / 36028797018963968)) = Fin (3602879701896397 / 36028797018963968)"
  by code_simp

lemma add_x_0: "js_add (Fin (2927339757790823 / 2251799813685248)) (Fin 0) = Fin (2927339757790823 / 2251799813685248)"
  by code_simp

lemma exact_sum_rounded:
  "roundDouble (3602879701896397 / 36028797018963968 + 3602879701896397 / 36028797018963968
                 + 2476979795053773 / 2251799813685248)
     = Fin (5854679515581645 / 4503599627370496)"
  by code_simp

text \<open>
  Against claim C10 as stated. On the amounts 0.1 (earned), 0.1 (portfolio) and 1.1
  (earned) the total is 1.3000000000000003: the earned bucket gives 0.1 + 1.1, to which
  the portfolio 0.1 is added. The amounts added in the order of the list give the double
  1.3, which is also the double nearest to their exact sum. So \<open>total\<close> is not the sum of
  every item's amount, in either reading.
\<close>

theorem income_total_counterexample:
  "total (calculateIncomeTotals (normalizeIncomeData asciiUpperCase (Some tenth_lines)))
     = Fin (2927339757790823 / 2251799813685248)
   \<and> foldl (\<lambda>sum i. js_add sum (item_amount i)) (Fin 0)
        (all_items (normalizeIncomeData asciiUpperCase (Some tenth_lines)))
     = Fin (5854679515581645 / 4503599627370496)
   \<and> roundDouble (\<Sum>i\<leftarrow>all_items (normalizeIncomeData asciiUpperCase (Some tenth_lines)).
                     finVal (item_amount i))
     = Fin (5854679515581645 / 4503599627370496)
   \<and> total (calculateIncomeTotals (normalizeIncomeData asciiUpperCase (Some tenth_lines)))
     \<noteq> foldl (\<lambda>sum i. js_add sum (item_amount i)) (Fin 0)
        (all_items (normalizeIncomeData asciiUpperCase (Some tenth_lines)))"
proof -
  have t: "total (calculateIncomeTotals (normalizeIncomeData asciiUpperCase (Some tenth_lines)))
     = Fin (2927339757790823 / 2251799813685248)"
    by (simp add: calculateIncomeTotals_def normalizeIncomeData_def Let_def tenth_lines_normalized
          add_0_x add_01_11 add_12_01 add_x_0 del: js_add.simps)
  have f: "foldl (\<lambda>sum i. js_add sum (item_amount i)) (Fin 0)
        (all_items (normalizeIncomeData asciiUpperCase (Some tenth_lines)))
     = Fin (5854679515581645 / 4503599627370496)"
    by (simp add: normalizeIncomeData_def Let_def tenth_lines_normalized
          add_0_x add_01_01 add_02_11 del: js_add.simps)
  have r: "roundDouble (\<Sum>i\<leftarrow>all_items (normalizeIncomeData asciiUpperCase (Some tenth_lines)).
                     finVal (item_amount i))
     = Fin (5854679515581645 / 4503599627370496)"
    using exact_sum_rounded
    by (simp add: normalizeIncomeData_def Let_def tenth_lines_normalized add.assoc del: roundDouble_of_int)
  have d: "(2927339757790823::rat) / 2251799813685248 \<noteq> 5854679515581645 / 4503599627370496"
    by simp
  from t f r d show ?thesis by simp
qed

end
